theory Spec2Isabelle
  imports Main
begin

section \<open>The script model of the data-move utility (ISfdxCommand.ts)\<close>

text \<open>
  The theory embeds the classes \<open>Script\<close>, \<open>ScriptOrg\<close>, \<open>ScriptObject\<close>,
  \<open>SFieldDescribe\<close> and \<open>OrgInfo\<close>. Methods that mutate \<open>this\<close> become functions
  that return the updated value; a thrown exception is the left summand of the result.
  The query parser and composer (package soql-parser-js), the CLI call and the query
  call against an org are collaborators outside the file: they are parameters of the
  model (record \<open>externals\<close>), and every theorem holds for all of them.
  Log output (\<open>logger.info...\<close>) is not modelled, and the records leave out the
  properties that no method of the file reads or writes (the scalar options of the
  script, \<open>mockFields\<close>, the two \<open>SObjectDescribe\<close>) and the back references to the
  script, which is passed along instead.
\<close>

subsection \<open>Query syntax trees\<close>

text \<open>
  An element of \<open>Query.fields\<close>. The code reads only its property \<open>field\<close>
  (through the cast to \<open>SOQLField\<close>). A plain field \<open>Name\<close> has the type \<open>Field\<close> and
  the field \<open>Name\<close>; a field reached through a relationship, \<open>Account.Name\<close>, has the
  type \<open>FieldRelationship\<close>, the field \<open>Name\<close> as well, and the path \<open>Account\<close> in
  \<open>relationships\<close>; a function expression or a subquery has no property \<open>field\<close>
  (\<open>None\<close>).
\<close>

record FieldType =
  ftype :: string
  field :: "string option"
  relationships :: "string list"

text \<open>\<open>getComposedField\<close> of the parser library, at a plain field name.\<close>

definition getComposedField :: "string \<Rightarrow> FieldType" where
  "getComposedField f = \<lparr>ftype = ''Field'', field = Some f, relationships = []\<rparr>"

datatype cond_value = Value string | Values "string list"

record Condition =
  cfield :: string
  coperator :: string
  cvalue :: cond_value
  cliteralType :: string

text \<open>A where clause: a condition, then optionally a logical operator and the rest.\<close>

datatype WhereClause = Where Condition "(string \<times> WhereClause) option"

record OrderByClause =
  ofield :: string
  order :: string

record Query =
  qfields :: "FieldType list"
  sObject :: string
  whereClause :: "WhereClause option"
  orderBy :: "OrderByClause option"
  limitRows :: "nat option"

text \<open>
  Modelled from the spec: \<open>CommonUtils.distinctArray\<close> (components/commonUtils is not
  among the sources): a stable de-duplication pass keyed on a property, the first
  occurrence of each key winning. \<open>distinctFrom seen\<close> carries the keys already met.
\<close>

fun distinctFrom :: "('a \<Rightarrow> 'k) \<Rightarrow> 'k list \<Rightarrow> 'a list \<Rightarrow> 'a list" where
  "distinctFrom key seen [] = []"
| "distinctFrom key seen (x # xs) =
     (if key x \<in> set seen then distinctFrom key seen xs
      else x # distinctFrom key (key x # seen) xs)"

definition distinctArray :: "'a list \<Rightarrow> ('a \<Rightarrow> 'k) \<Rightarrow> 'a list" where
  "distinctArray array distinctByProp = distinctFrom distinctByProp [] array"

text \<open>
  Modelled from the spec: \<open>CommonUtils.composeWhereClause\<close> (same missing module):
  it conjoins a new predicate onto the existing filter clause, creating the clause when
  there is none. The call with three arguments leaves the operator, the literal type
  and the logical operator to the helper's defaults, which for a set of values are the
  membership operator on text values.
\<close>

definition composeWhereClause ::
  "WhereClause option \<Rightarrow> string \<Rightarrow> cond_value \<Rightarrow> string \<Rightarrow> string \<Rightarrow> string \<Rightarrow> WhereClause" where
  "composeWhereClause wh fieldName vals operator literalType logicalOperator =
     (let c = \<lparr>cfield = fieldName, coperator = operator, cvalue = vals,
                cliteralType = literalType\<rparr>
      in case wh of
           None \<Rightarrow> Where c None
         | Some w \<Rightarrow> Where c (Some (logicalOperator, w)))"

definition composeWhereClause_default ::
  "WhereClause option \<Rightarrow> string \<Rightarrow> cond_value \<Rightarrow> WhereClause" where
  "composeWhereClause_default wh fieldName vals =
     composeWhereClause wh fieldName vals ''IN'' ''STRING'' ''AND''"

subsection \<open>Operations, errors, collaborators\<close>

text \<open>
  Modelled from the spec: the enum \<open>OPERATION\<close> (components/statics is not among the
  sources), with the members the specification lists. \<open>setup\<close> tells a text from a
  member by \<open>typeof operation == "string"\<close> and replaces the text by
  \<open>OPERATION[text]\<close>, and \<open>strOperation\<close> reads the name of a member as
  \<open>OPERATION[operation]\<close>: the members are numbers, \<open>OPERATION[text]\<close> maps the
  name of a member to the member and is undefined for any other text.
\<close>

datatype OPERATION = Insert | Update | Upsert | Delete | Readonly

definition OPERATION_of_name :: "string \<Rightarrow> OPERATION option" where
  "OPERATION_of_name t =
     (if t = ''Insert'' then Some Insert
      else if t = ''Update'' then Some Update
      else if t = ''Upsert'' then Some Upsert
      else if t = ''Delete'' then Some Delete
      else if t = ''Readonly'' then Some Readonly
      else None)"

definition OPERATION_name :: "OPERATION \<Rightarrow> string" where
  "OPERATION_name e =
     (case e of Insert \<Rightarrow> ''Insert'' | Update \<Rightarrow> ''Update'' | Upsert \<Rightarrow> ''Upsert''
      | Delete \<Rightarrow> ''Delete'' | Readonly \<Rightarrow> ''Readonly'')"

definition OPERATION_members :: "OPERATION list" where
  "OPERATION_members = [Insert, Update, Upsert, Delete, Readonly]"

text \<open>
  The run-time value of the property \<open>operation\<close>: a member of the enum, a text (the
  script file gives the operation by name), or undefined after a failed lookup.
\<close>

datatype op_value = OpEnum OPERATION | OpText string | OpUndefined

text \<open>The decimal numeral of a number, as the keys of the enum object are written.\<close>

fun decimal :: "nat \<Rightarrow> string" where
  "decimal n =
     (if n < 10 then [''0123456789'' ! n]
      else decimal (n div 10) @ [''0123456789'' ! (n mod 10)])"

datatype RESOURCES =
    noObjectsDefinedInPackageFile
  | accessToOrgExpired
  | tryingToConnectCLIFailed
  | MalformedQuery
  | MalformedDeleteQuery

text \<open>
  \<open>CommandInitializationError\<close> carries the message \<open>getResourceString\<close> builds: the
  resource and its arguments. \<open>TypeError\<close> is what reading a property of null throws.
\<close>

datatype error = CommandInitializationError RESOURCES "string list" | TypeError

datatype DATA_MEDIA_TYPE = Org | File

record ScriptOrg =
  org_name :: string
  instanceUrl :: "string option"
  accessToken :: "string option"
  media :: "DATA_MEDIA_TYPE option"
  isSource :: bool
  isPersonAccountEnabled :: bool

record SFieldDescribe =
  fd_name :: string
  fd_type :: string
  fd_label :: string
  updateable :: bool
  creatable :: bool
  cascadeDelete :: bool
  autoNumber :: bool
  custom :: bool
  calculated :: bool
  isReference :: bool
  referencedObjectType :: string

record ScriptObject =
  query :: string
  deleteQuery :: string
  operation :: op_value
  externalId :: string
  deleteOldData :: bool
  updateWithMockData :: bool
  mockCSVData :: bool
  targetRecordsFilter :: string
  excluded :: bool
  useCSVValuesMapping :: bool
  allRecords :: bool
  name :: string
  sourceFieldsMap :: "(string \<times> SFieldDescribe) list"
  targetFieldsMap :: "(string \<times> SFieldDescribe) list"
  initialExternalId :: string
  parsedQuery :: "Query option"
  parsedDeleteQuery :: "Query option"
  isExtraObject :: bool

text \<open>
  The collaborators: \<open>parseQuery\<close> throws (\<open>Inl\<close>, with the exception's text) or
  returns the tree; \<open>composeQuery\<close> prints a tree; \<open>execSfdx command username\<close> is the
  output of the CLI; \<open>queryAsync org soql\<close> tells whether the query against the org
  returns (\<open>True\<close>) or throws; \<open>NOT_SUPPORTED_OBJECTS\<close> is the constant of that name.
  Two more parameters stand for what the file does not show: \<open>OPERATION_number\<close> gives
  the number the declaration of the enum assigns to a member, and \<open>toNumber\<close> is the
  conversion that \<open>==\<close> applies to a text compared with a number: \<open>Some n\<close> when the
  text converts to the number \<open>n\<close>, \<open>None\<close> when it converts to anything else.
\<close>

record externals =
  parseQuery :: "string \<Rightarrow> string + Query"
  composeQuery :: "Query \<Rightarrow> string"
  execSfdx :: "string \<Rightarrow> string \<Rightarrow> string"
  queryAsync :: "ScriptOrg \<Rightarrow> string \<Rightarrow> bool"
  NOT_SUPPORTED_OBJECTS :: "string list"
  OPERATION_number :: "OPERATION \<Rightarrow> nat"
  toNumber :: "string \<Rightarrow> nat option"

text \<open>
  \<open>operation == OPERATION.member\<close>: a member is equal to itself alone, a text is
  converted to a number and compared with the number of the member, undefined is
  equal to no number.
\<close>

definition looseEq :: "externals \<Rightarrow> op_value \<Rightarrow> OPERATION \<Rightarrow> bool" where
  "looseEq X v e =
     (case v of
        OpEnum x \<Rightarrow> x = e
      | OpText t \<Rightarrow> toNumber X t = Some (OPERATION_number X e)
      | OpUndefined \<Rightarrow> False)"

record Script =
  orgs :: "ScriptOrg list"
  objects :: "ScriptObject list"
  apiVersion :: string
  sourceOrg :: ScriptOrg
  targetOrg :: ScriptOrg
  basePath :: string
  objectsMap :: "string \<rightharpoonup> ScriptObject"

subsection \<open>ScriptObject\<close>

definition fieldsInQuery :: "ScriptObject \<Rightarrow> string option list" where
  "fieldsInQuery this =
     (case parsedQuery this of
        None \<Rightarrow> []
      | Some q \<Rightarrow> map field (qfields q))"

definition hasRecordTypeIdField :: "ScriptObject \<Rightarrow> bool" where
  "hasRecordTypeIdField this = (Some ''RecordTypeId'' \<in> set (fieldsInQuery this))"

text \<open>
  Fix operation value: a text is looked up in the enum object, \<open>OPERATION[text]\<close>.
  The object maps the name of a member to the member and the numeral of a member to
  its name, a text again. For any other text the result is rendered as undefined: it
  is \<open>==\<close> to no member.
\<close>

definition fixOperation :: "externals \<Rightarrow> op_value \<Rightarrow> op_value" where
  "fixOperation X v =
     (case v of
        OpText t \<Rightarrow>
          (case OPERATION_of_name t of
             Some e \<Rightarrow> OpEnum e
           | None \<Rightarrow>
               (case find (\<lambda>e. decimal (OPERATION_number X e) = t) OPERATION_members of
                  Some e \<Rightarrow> OpText (OPERATION_name e)
                | None \<Rightarrow> OpUndefined))
      | _ \<Rightarrow> v)"

text \<open>The first statements of \<open>setup\<close>, up to the forced external id of an Insert.\<close>

definition setup_init :: "externals \<Rightarrow> ScriptObject \<Rightarrow> ScriptObject" where
  "setup_init X this =
     (let this = this\<lparr>initialExternalId := externalId this\<rparr>;
          this = this\<lparr>operation := fixOperation X (operation this)\<rparr>
      in if looseEq X (operation this) Insert then this\<lparr>externalId := ''Id''\<rparr> else this)"

text \<open>
  The body of the first \<open>try\<close> after the parse: the fields made distinct, a Delete
  narrowed to the record id, the record id added when it is missing.
\<close>

definition setup_fields :: "externals \<Rightarrow> ScriptObject \<Rightarrow> Query \<Rightarrow> ScriptObject" where
  "setup_fields X this q =
     (let q = q\<lparr>qfields := distinctArray (qfields q) field\<rparr>;
          this = this\<lparr>parsedQuery := Some q\<rparr>;
          this = (if looseEq X (operation this) Delete
                  then this\<lparr>deleteOldData := True,
                            parsedQuery := Some (q\<lparr>qfields := [getComposedField ''Id'']\<rparr>)\<rparr>
                  else this)
      in if Some ''Id'' \<notin> set (fieldsInQuery this)
         then this\<lparr>parsedQuery :=
                map_option (\<lambda>q. q\<lparr>qfields := qfields q @ [getComposedField ''Id'']\<rparr>)
                  (parsedQuery this)\<rparr>
         else this)"

text \<open>
  Update object: the query text recomposed, the name taken from the parsed query (which
  is set when \<open>setup\<close> gets here).
\<close>

definition setup_update :: "externals \<Rightarrow> ScriptObject \<Rightarrow> ScriptObject" where
  "setup_update X this =
     (case parsedQuery this of
        None \<Rightarrow> this
      | Some pq \<Rightarrow> this\<lparr>query := composeQuery X pq, name := sObject pq\<rparr>)"

text \<open>The second \<open>try\<close>: the delete query, for an object whose old data is deleted.\<close>

definition setup_deleteQuery ::
  "externals \<Rightarrow> Script \<Rightarrow> ScriptObject \<Rightarrow> error + ScriptObject" where
  "setup_deleteQuery X script this =
     (if deleteOldData this then
        (case parseQuery X (if deleteQuery this \<noteq> [] then deleteQuery this else query this) of
           Inl ex \<Rightarrow>
             Inl (CommandInitializationError MalformedDeleteQuery
                    [name this, deleteQuery this, ex])
         | Inr dq \<Rightarrow>
             (let dq = dq\<lparr>qfields := [getComposedField ''Id'']\<rparr>;
                  dq = (if isPersonAccountEnabled (sourceOrg script) \<and> name this = ''Contact''
                        then dq\<lparr>whereClause := Some (composeWhereClause (whereClause dq)
                                  ''IsPersonAccount'' (Value ''false'') ''='' ''BOOLEAN'' ''AND'')\<rparr>
                        else dq)
              in Inr (this\<lparr>parsedDeleteQuery := Some dq, deleteQuery := composeQuery X dq\<rparr>)))
      else Inr this)"

text \<open>
  \<open>ScriptObject.setup\<close>. The object map of the script holds the object itself, so the
  entry made in the middle of \<open>setup\<close> shows the delete query written after it: the
  model enters the object as \<open>setup\<close> leaves it. When \<open>setup\<close> throws, the script is
  given up with it.
\<close>

definition ScriptObject_setup :: "externals \<Rightarrow> Script \<Rightarrow> ScriptObject \<Rightarrow> error + (ScriptObject \<times> Script)" where
  "ScriptObject_setup X script this0 =
     (let this = setup_init X this0 in
      case parseQuery X (query this) of
        Inl ex \<Rightarrow> Inl (CommandInitializationError MalformedQuery [name this, query this, ex])
      | Inr q \<Rightarrow>
          (let this = setup_update X (setup_fields X this q)
           in case setup_deleteQuery X script this of
                Inl e \<Rightarrow> Inl e
              | Inr this \<Rightarrow>
                  Inr (this, script\<lparr>objectsMap := (objectsMap script)(name this \<mapsto> this)\<rparr>)))"

text \<open>
  \<open>fieldsToUpdate\<close>. \<open>Map.get\<close> is \<open>map_of\<close> on the association list of a describe
  map, and the map has size 0 exactly when the list is empty. The callback's null is
  \<open>None\<close>; the final filter keeps the truthy results, the non-empty names.
\<close>

definition isFormula :: "SFieldDescribe \<Rightarrow> bool" where
  "isFormula d = calculated d"

definition isReadonly :: "SFieldDescribe \<Rightarrow> bool" where
  "isReadonly d = (\<not> (creatable d \<and> \<not> isFormula d \<and> \<not> autoNumber d))"

definition mapGet :: "(string \<times> 'v) list \<Rightarrow> string option \<Rightarrow> 'v option" where
  "mapGet m k = (case k of None \<Rightarrow> None | Some key \<Rightarrow> map_of m key)"

definition fieldsToUpdate :: "externals \<Rightarrow> ScriptObject \<Rightarrow> string list" where
  "fieldsToUpdate X this =
     (case parsedQuery this of
        None \<Rightarrow> []
      | Some q \<Rightarrow>
          if sourceFieldsMap this = [] \<or> looseEq X (operation this) Readonly then []
          else [n. Some n \<leftarrow>
                  map (\<lambda>x. let name = field x;
                               describe = (case mapGet (targetFieldsMap this) name of
                                             None \<Rightarrow> None
                                           | Some _ \<Rightarrow> mapGet (sourceFieldsMap this) name)
                           in case describe of
                                None \<Rightarrow> None
                              | Some d \<Rightarrow> if isReadonly d then None else field x)
                      (qfields q),
                n \<noteq> []])"

text \<open>\<open>new ScriptObject()\<close>: the initial values of the properties.\<close>

definition new_ScriptObject :: ScriptObject where
  "new_ScriptObject =
     \<lparr>query = [], deleteQuery = [], operation = OpEnum Readonly, externalId = ''Name'',
      deleteOldData = False, updateWithMockData = False, mockCSVData = False,
      targetRecordsFilter = [], excluded = False, useCSVValuesMapping = False,
      allRecords = True, name = [], sourceFieldsMap = [], targetFieldsMap = [],
      initialExternalId = [], parsedQuery = None, parsedDeleteQuery = None,
      isExtraObject = False\<rparr>"

subsection \<open>ScriptOrg\<close>

record OrgInfo =
  AccessToken :: "string option"
  ClientId :: "string option"
  ConnectedStatus :: "string option"
  Status :: "string option"
  OrgId :: "string option"
  UserId :: "string option"
  InstanceUrl :: "string option"
  Username :: "string option"

definition new_OrgInfo :: OrgInfo where
  "new_OrgInfo =
     \<lparr>AccessToken = None, ClientId = None, ConnectedStatus = None, Status = None,
      OrgId = None, UserId = None, InstanceUrl = None, Username = None\<rparr>"

definition OrgInfo_isConnected :: "OrgInfo \<Rightarrow> bool" where
  "OrgInfo_isConnected info =
     (ConnectedStatus info = Some ''Connected'' \<or> Status info = Some ''Active'')"

definition new_ScriptOrg :: ScriptOrg where
  "new_ScriptOrg =
     \<lparr>org_name = [], instanceUrl = Some [], accessToken = Some [], media = None,
      isSource = False, isPersonAccountEnabled = False\<rparr>"

definition isConnected :: "ScriptOrg \<Rightarrow> bool" where
  "isConnected this = (case accessToken this of None \<Rightarrow> False | Some t \<Rightarrow> t \<noteq> [])"

definition isFileMedia :: "ScriptOrg \<Rightarrow> bool" where
  "isFileMedia this = (media this = Some File)"

text \<open>\<open>String.split\<close> at a one-character separator: never an empty array.\<close>

fun js_split :: "char \<Rightarrow> string \<Rightarrow> string list" where
  "js_split sep [] = [[]]"
| "js_split sep (c # cs) =
     (if c = sep then [] # js_split sep cs
      else (case js_split sep cs of [] \<Rightarrow> [[c]] | w # ws \<Rightarrow> (c # w) # ws))"

definition startsWith :: "string \<Rightarrow> string \<Rightarrow> bool" where
  "startsWith s p = (take (length p) s = p)"

definition parseLine :: "OrgInfo \<Rightarrow> string \<Rightarrow> OrgInfo" where
  "parseLine output0 line =
     (let v = Some (last (js_split CHR '' '' line));
          output = (if startsWith line ''Access Token'' then output0\<lparr>AccessToken := v\<rparr> else output0);
          output = (if startsWith line ''Client Id'' then output\<lparr>ClientId := v\<rparr> else output);
          output = (if startsWith line ''Connected Status'' then output\<lparr>ConnectedStatus := v\<rparr> else output);
          output = (if startsWith line ''Status'' then output\<lparr>Status := v\<rparr> else output);
          output = (if startsWith line ''Id'' then output\<lparr>OrgId := v\<rparr> else output);
          output = (if startsWith line ''Instance Url'' then output\<lparr>InstanceUrl := v\<rparr> else output)
      in if startsWith line ''Username'' then output\<lparr>Username := v\<rparr> else output)"

text \<open>\<open>_parseForceOrgDisplayResult\<close>: null (\<open>None\<close>) on an empty command result.\<close>

definition parseForceOrgDisplayResult :: "string \<Rightarrow> OrgInfo option" where
  "parseForceOrgDisplayResult commandResult =
     (if commandResult = [] then None
      else Some (foldl parseLine new_OrgInfo (js_split (CHR 0x0A) commandResult)))"

definition validateAccessTokenAsync :: "externals \<Rightarrow> ScriptOrg \<Rightarrow> error + ScriptOrg" where
  "validateAccessTokenAsync X this =
     (if \<not> isFileMedia this then
        (if \<not> queryAsync X this ''SELECT Id FROM Account LIMIT 1''
         then Inl (CommandInitializationError accessToOrgExpired [org_name this])
         else if queryAsync X this ''SELECT IsPersonAccount FROM Account LIMIT 1''
         then Inr (this\<lparr>isPersonAccountEnabled := True\<rparr>)
         else Inr (this\<lparr>isPersonAccountEnabled := False\<rparr>))
      else Inr this)"

definition setupConnection :: "externals \<Rightarrow> ScriptOrg \<Rightarrow> error + ScriptOrg" where
  "setupConnection X this =
     (if \<not> isFileMedia this then
        (if \<not> isConnected this then
           (let processResult = execSfdx X ''force:org:display'' (org_name this)
            in case parseForceOrgDisplayResult processResult of
                 None \<Rightarrow> Inl TypeError
               | Some orgInfo \<Rightarrow>
                   if \<not> OrgInfo_isConnected orgInfo
                   then Inl (CommandInitializationError tryingToConnectCLIFailed [org_name this])
                   else validateAccessTokenAsync X
                          (this\<lparr>accessToken := AccessToken orgInfo,
                                instanceUrl := InstanceUrl orgInfo\<rparr>))
         else validateAccessTokenAsync X this)
      else Inr this)"

definition ScriptOrg_setupAsync :: "externals \<Rightarrow> ScriptOrg \<Rightarrow> error + ScriptOrg" where
  "ScriptOrg_setupAsync X this = setupConnection X this"

subsection \<open>Script\<close>

text \<open>
  \<open>String.toLowerCase\<close> on the letters A to Z (codes 65 to 90, where the bit of
  value 32 is clear: setting it adds 32); no other character becomes a letter of the
  word it is compared with.
\<close>

definition toLowerCase_char :: "char \<Rightarrow> char" where
  "toLowerCase_char c =
     (if 65 \<le> (of_char c :: nat) \<and> (of_char c :: nat) \<le> 90
      then (case c of Char b0 b1 b2 b3 b4 b5 b6 b7 \<Rightarrow> Char b0 b1 b2 b3 b4 True b6 b7)
      else c)"

definition toLowerCase :: "string \<Rightarrow> string" where
  "toLowerCase s = map toLowerCase_char s"

definition mediaOf :: "string \<Rightarrow> DATA_MEDIA_TYPE" where
  "mediaOf username = (if toLowerCase username = ''csvfile'' then File else Org)"

definition findOrg :: "ScriptOrg list \<Rightarrow> string \<Rightarrow> ScriptOrg" where
  "findOrg os username =
     (case filter (\<lambda>x. org_name x = username) os of [] \<Rightarrow> new_ScriptOrg | x # _ \<Rightarrow> x)"

text \<open>
  Source and target are one object when both names are the same and an org of the
  script has that name: then every change to one is a change to the other.
\<close>

definition sameOrg :: "ScriptOrg list \<Rightarrow> string \<Rightarrow> string \<Rightarrow> bool" where
  "sameOrg os sourceUsername targetUsername =
     (sourceUsername = targetUsername \<and> filter (\<lambda>x. org_name x = sourceUsername) os \<noteq> [])"

text \<open>Initialize script.\<close>

definition initScript :: "Script \<Rightarrow> string \<Rightarrow> string \<Rightarrow> string \<Rightarrow> string \<Rightarrow> Script" where
  "initScript this sourceUsername targetUsername basePath' apiVersion' =
     this\<lparr>basePath := basePath',
          sourceOrg := findOrg (orgs this) sourceUsername,
          targetOrg := findOrg (orgs this) targetUsername,
          apiVersion := (if apiVersion' \<noteq> [] then apiVersion' else apiVersion this)\<rparr>"

text \<open>Remove excluded objects.\<close>

definition removeExcluded :: "externals \<Rightarrow> Script \<Rightarrow> Script" where
  "removeExcluded X this =
     this\<lparr>objects := filter (\<lambda>object. \<not> excluded object
                                      \<or> looseEq X (operation object) Readonly)
                         (objects this)\<rparr>"

text \<open>Assign orgs, then setup orgs: the source before the target.\<close>

definition assignOrgs :: "Script \<Rightarrow> string \<Rightarrow> string \<Rightarrow> Script" where
  "assignOrgs this sourceUsername targetUsername =
     (let src = (sourceOrg this)\<lparr>org_name := sourceUsername, isSource := True,
                                 media := Some (mediaOf sourceUsername)\<rparr>;
          tgt = (if sameOrg (orgs this) sourceUsername targetUsername then src
                 else targetOrg this)\<lparr>org_name := targetUsername,
                                       media := Some (mediaOf targetUsername)\<rparr>
      in this\<lparr>sourceOrg := (if sameOrg (orgs this) sourceUsername targetUsername then tgt else src),
              targetOrg := tgt\<rparr>)"

definition setupOrgs :: "externals \<Rightarrow> Script \<Rightarrow> string \<Rightarrow> string \<Rightarrow> error + Script" where
  "setupOrgs X this sourceUsername targetUsername =
     (case ScriptOrg_setupAsync X (sourceOrg this) of
        Inl e \<Rightarrow> Inl e
      | Inr src \<Rightarrow>
          if sameOrg (orgs this) sourceUsername targetUsername then
            (case ScriptOrg_setupAsync X src of
               Inl e \<Rightarrow> Inl e
             | Inr tgt \<Rightarrow> Inr (this\<lparr>sourceOrg := tgt, targetOrg := tgt\<rparr>))
          else
            (case ScriptOrg_setupAsync X (targetOrg this) of
               Inl e \<Rightarrow> Inl e
             | Inr tgt \<Rightarrow> Inr (this\<lparr>sourceOrg := src, targetOrg := tgt\<rparr>)))"

text \<open>
  Setup objects: the loop over \<open>this.objects\<close>. Every object is changed in place and
  the script's object map is threaded through.
\<close>

fun setupObjects ::
  "externals \<Rightarrow> Script \<Rightarrow> ScriptObject list \<Rightarrow> error + (ScriptObject list \<times> Script)" where
  "setupObjects X script [] = Inr ([], script)"
| "setupObjects X script (object # rest) =
     (case ScriptObject_setup X script object of
        Inl e \<Rightarrow> Inl e
      | Inr (object', script') \<Rightarrow>
          (case setupObjects X script' rest of
             Inl e \<Rightarrow> Inl e
           | Inr (rest', script'') \<Rightarrow> Inr (object' # rest', script'')))"

text \<open>Remove unnecessary objects.\<close>

definition removeUnsupported :: "externals \<Rightarrow> Script \<Rightarrow> Script" where
  "removeUnsupported X this =
     this\<lparr>objects := filter (\<lambda>x. name x \<notin> set (NOT_SUPPORTED_OBJECTS X)) (objects this)\<rparr>"

text \<open>
  Add the RecordType object. The new object is in the object map under its name since
  its \<open>setup\<close>, so the map shows the where clause, the order and the query text written
  after it. Reading the parsed query of an object without one would throw.
\<close>

definition addRecordTypeObject :: "externals \<Rightarrow> Script \<Rightarrow> error + Script" where
  "addRecordTypeObject X this =
     (let objectsWithRecordTypeFields = map name (filter hasRecordTypeIdField (objects this))
      in if objectsWithRecordTypeFields \<noteq> [] then
           (case ScriptObject_setup X this
                   (new_ScriptObject\<lparr>name := ''RecordType'', externalId := ''DeveloperName'',
                      isExtraObject := True, allRecords := True,
                      query := ''SELECT Id FROM RecordType'',
                      operation := OpEnum Readonly\<rparr>) of
              Inl e \<Rightarrow> Inl e
            | Inr (object, this') \<Rightarrow>
                (case parsedQuery object of
                   None \<Rightarrow> Inl TypeError
                 | Some pq \<Rightarrow>
                     (let pq' = pq\<lparr>whereClause := Some (composeWhereClause_default
                                       (whereClause pq) ''SobjectType''
                                       (Values objectsWithRecordTypeFields)),
                                    orderBy := Some \<lparr>ofield = ''SobjectType'', order = ''ASC''\<rparr>\<rparr>;
                          object' = object\<lparr>parsedQuery := Some pq',
                                           query := composeQuery X pq'\<rparr>
                      in Inr (this'\<lparr>objects := objects this' @ [object'],
                                    objectsMap := (objectsMap this')(name object' \<mapsto> object')\<rparr>))))
         else Inr this)"

definition Script_setupAsync ::
  "externals \<Rightarrow> Script \<Rightarrow> string \<Rightarrow> string \<Rightarrow> string \<Rightarrow> string \<Rightarrow> error + Script" where
  "Script_setupAsync X this0 sourceUsername targetUsername basePath' apiVersion' =
     (let this = removeExcluded X (initScript this0 sourceUsername targetUsername basePath' apiVersion')
      in if objects this = []
         then Inl (CommandInitializationError noObjectsDefinedInPackageFile [])
         else
           (case setupOrgs X (assignOrgs this sourceUsername targetUsername)
                   sourceUsername targetUsername of
              Inl e \<Rightarrow> Inl e
            | Inr this \<Rightarrow>
                (case setupObjects X this (objects this) of
                   Inl e \<Rightarrow> Inl e
                 | Inr (objects', this) \<Rightarrow>
                     addRecordTypeObject X (removeUnsupported X (this\<lparr>objects := objects'\<rparr>)))))"

section \<open>Example collaborators and scripts\<close>

text \<open>
  A table for a parser and a small printer stand for the query library in the
  examples: the theorems hold for every parser and composer.
\<close>

definition ex_query :: "string list \<Rightarrow> string \<Rightarrow> Query" where
  "ex_query fs obj =
     \<lparr>qfields = map getComposedField fs, sObject = obj, whereClause = None,
      orderBy = None, limitRows = None\<rparr>"

definition ex_parseQuery :: "string \<Rightarrow> string + Query" where
  "ex_parseQuery s =
     (if s = ''SELECT Name FROM Account'' then Inr (ex_query [''Name''] ''Account'')
      else if s = ''SELECT Name, Id FROM Account'' then Inr (ex_query [''Name'', ''Id''] ''Account'')
      else if s = ''SELECT Id, RecordTypeId FROM Contact''
        then Inr (ex_query [''Id'', ''RecordTypeId''] ''Contact'')
      else if s = ''SELECT Id, RecordTypeId FROM Account''
        then Inr (ex_query [''Id'', ''RecordTypeId''] ''Account'')
      else if s = ''SELECT Id FROM Contact'' then Inr (ex_query [''Id''] ''Contact'')
      else if s = ''SELECT Id FROM Profile'' then Inr (ex_query [''Id''] ''Profile'')
      else if s = ''SELECT Id FROM RecordType'' then Inr (ex_query [''Id''] ''RecordType'')
      else if s = ''SELECT Account.Id FROM Contact''
        then Inr ((ex_query [] ''Contact'')
               \<lparr>qfields := [\<lparr>ftype = ''FieldRelationship'', field = Some ''Id'',
                              relationships = [''Account'']\<rparr>]\<rparr>)
      else Inl ''unexpected token'')"

fun commaList :: "string list \<Rightarrow> string" where
  "commaList [] = []"
| "commaList [x] = x"
| "commaList (x # y # ys) = x @ '', '' @ commaList (y # ys)"

fun ex_composeWhere :: "WhereClause \<Rightarrow> string" where
  "ex_composeWhere (Where c rest) =
     cfield c @ '' '' @ coperator c @ '' '' @
     (case cvalue c of Value v \<Rightarrow> v | Values vs \<Rightarrow> ''('' @ commaList vs @ '')'') @
     (case rest of None \<Rightarrow> [] | Some (lop, w) \<Rightarrow> '' '' @ lop @ '' '' @ ex_composeWhere w)"

definition ex_composeQuery :: "Query \<Rightarrow> string" where
  "ex_composeQuery q =
     ''SELECT '' @ commaList (map (\<lambda>f. concat (map (\<lambda>r. r @ ''.'') (relationships f))
                                        @ (case field f of None \<Rightarrow> ''?'' | Some n \<Rightarrow> n))
                               (qfields q))
     @ '' FROM '' @ sObject q
     @ (case whereClause q of None \<Rightarrow> [] | Some w \<Rightarrow> '' WHERE '' @ ex_composeWhere w)
     @ (case orderBy q of None \<Rightarrow> [] | Some ob \<Rightarrow> '' ORDER BY '' @ ofield ob @ '' '' @ order ob)"

text \<open>
  The numbers of the members in the examples, and a conversion that knows the numerals
  of these numbers and the empty text, and takes every other text for no number.
\<close>

definition ex_OPERATION_number :: "OPERATION \<Rightarrow> nat" where
  "ex_OPERATION_number e =
     (case e of Insert \<Rightarrow> 0 | Update \<Rightarrow> 1 | Upsert \<Rightarrow> 2 | Readonly \<Rightarrow> 3 | Delete \<Rightarrow> 4)"

definition ex_toNumber :: "string \<Rightarrow> nat option" where
  "ex_toNumber t =
     (if t = [] \<or> t = ''0'' then Some 0
      else if t = ''1'' then Some 1
      else if t = ''2'' then Some 2
      else if t = ''3'' then Some 3
      else if t = ''4'' then Some 4
      else None)"

definition ex_externals :: externals where
  "ex_externals =
     \<lparr>parseQuery = ex_parseQuery, composeQuery = ex_composeQuery,
      execSfdx = (\<lambda>command username.
         if username = ''prod'' then ''Access Token 00Dxx'' @ [CHR 0x0A] @ ''Connected Status Connected''
           @ [CHR 0x0A] @ ''Instance Url https://example.my.salesforce.com''
         else if username = ''stale'' then ''Username stale''
         else []),
      queryAsync = (\<lambda>org soql. org_name org \<noteq> ''expired''
                        \<and> (soql = ''SELECT Id FROM Account LIMIT 1'' \<or> org_name org = ''prod'')),
      NOT_SUPPORTED_OBJECTS = [''Profile''],
      OPERATION_number = ex_OPERATION_number, toNumber = ex_toNumber\<rparr>"

definition ex_script :: Script where
  "ex_script =
     \<lparr>orgs = [], objects = [], apiVersion = ''47.0'', sourceOrg = new_ScriptOrg,
      targetOrg = new_ScriptOrg, basePath = [], objectsMap = Map.empty\<rparr>"

definition ex_account :: ScriptObject where
  "ex_account = new_ScriptObject\<lparr>name := ''Account'', query := ''SELECT Name FROM Account'',
                                  operation := OpEnum Insert\<rparr>"


definition ex_contact_parent :: ScriptObject where
  "ex_contact_parent =
     new_ScriptObject\<lparr>name := ''Contact'', query := ''SELECT Account.Id FROM Contact'',
                      operation := OpEnum Update\<rparr>"

definition ex_contact :: ScriptObject where
  "ex_contact = new_ScriptObject\<lparr>name := ''People'', query := ''SELECT Id, RecordTypeId FROM Contact'',
                                  operation := OpText ''Delete''\<rparr>"

definition ex_account_text :: ScriptObject where
  "ex_account_text = new_ScriptObject\<lparr>name := ''Account'', query := ''SELECT Name FROM Account'',
       operation := OpText ''Insert'', externalId := ''Name''\<rparr>"

definition ex_script_pa :: Script where
  "ex_script_pa = ex_script\<lparr>sourceOrg := new_ScriptOrg\<lparr>isPersonAccountEnabled := True\<rparr>\<rparr>"

definition ex_contact_update :: ScriptObject where
  "ex_contact_update =
     new_ScriptObject\<lparr>name := ''Contact'', query := ''SELECT Id, RecordTypeId FROM Contact'',
                      operation := OpEnum Update, deleteOldData := True\<rparr>"

definition ex_contact_bad :: ScriptObject where
  "ex_contact_bad = ex_contact_update\<lparr>deleteQuery := ''DELETE Contact''\<rparr>"

definition ex_account_upsert :: ScriptObject where
  "ex_account_upsert =
     new_ScriptObject\<lparr>name := ''Accounts again'', query := ''SELECT Name, Id FROM Account'',
                      operation := OpEnum Upsert\<rparr>"


definition ex_profile :: ScriptObject where
  "ex_profile =
     new_ScriptObject\<lparr>name := ''Profile'', query := ''SELECT Id FROM Profile''\<rparr>"


definition ex_script_profile :: Script where
  "ex_script_profile = ex_script\<lparr>objects := [ex_account, ex_profile]\<rparr>"

text \<open>
  The updatable fields in the words of the specification: the queried fields whose
  descriptors are present and not read-only in the describe maps of both endpoints,
  none when the operation is Readonly or a describe map is not populated.
\<close>

definition fieldsToUpdate_spec :: "ScriptObject \<Rightarrow> string list" where
  "fieldsToUpdate_spec this =
     (case parsedQuery this of
        None \<Rightarrow> []
      | Some q \<Rightarrow>
          if operation this = OpEnum Readonly \<or> sourceFieldsMap this = []
             \<or> targetFieldsMap this = [] then []
          else [n. Some n \<leftarrow> map field (qfields q),
                (case map_of (sourceFieldsMap this) n of None \<Rightarrow> False | Some d \<Rightarrow> \<not> isReadonly d),
                (case map_of (targetFieldsMap this) n of None \<Rightarrow> False | Some d \<Rightarrow> \<not> isReadonly d)])"

definition ex_describe :: "string \<Rightarrow> bool \<Rightarrow> SFieldDescribe" where
  "ex_describe n c =
     \<lparr>fd_name = n, fd_type = ''string'', fd_label = n, updateable = c, creatable = c,
      cascadeDelete = False, autoNumber = False, custom = False, calculated = False,
      isReference = False, referencedObjectType = []\<rparr>"

definition ex_described :: ScriptObject where
  "ex_described =
     new_ScriptObject\<lparr>name := ''Account'', query := ''SELECT Name, Id FROM Account'',
        operation := OpEnum Update,
        parsedQuery := Some (ex_query [''Name'', ''Id''] ''Account''),
        sourceFieldsMap := [(''Name'', ex_describe ''Name'' True), (''Id'', ex_describe ''Id'' False)],
        targetFieldsMap := [(''Name'', ex_describe ''Name'' False), (''Id'', ex_describe ''Id'' False)]\<rparr>"

definition ex_readonly_text :: ScriptObject where
  "ex_readonly_text =
     new_ScriptObject\<lparr>name := ''Account'', query := ''SELECT Name FROM Account'',
                      operation := OpText ''Readonly'', excluded := True\<rparr>"

definition ex_script_excluded :: Script where
  "ex_script_excluded = ex_script\<lparr>objects := [ex_readonly_text]\<rparr>"

definition ex_org_offline :: ScriptOrg where
  "ex_org_offline = new_ScriptOrg\<lparr>org_name := ''offline'', media := Some Org\<rparr>"

definition ex_org_stale :: ScriptOrg where
  "ex_org_stale = new_ScriptOrg\<lparr>org_name := ''stale'', media := Some Org\<rparr>"

section \<open>Properties\<close>

subsection \<open>Auxiliary facts\<close>

lemmas object_defs =
  ScriptObject_setup_def setup_init_def setup_fields_def setup_update_def
  setup_deleteQuery_def fixOperation_def OPERATION_of_name_def fieldsInQuery_def
  distinctArray_def getComposedField_def composeWhereClause_def new_ScriptObject_def

lemmas ex_defs =
  ex_externals_def ex_parseQuery_def ex_composeQuery_def ex_query_def ex_script_def
  new_ScriptOrg_def

lemma set_distinctFrom:
  "key ` set (distinctFrom key seen xs) = key ` set xs - set seen"
  by (induction xs arbitrary: seen) auto

lemma keys_distinctArray: "key ` set (distinctArray xs key) = key ` set xs"
  by (simp add: distinctArray_def set_distinctFrom)

lemma field_getComposedField [simp]: "field (getComposedField f) = Some f"
  by (simp add: getComposedField_def)

lemma looseEq_OpEnum [simp]: "looseEq X (OpEnum x) e \<longleftrightarrow> x = e"
  by (simp add: looseEq_def)

lemma fixOperation_OpEnum [simp]: "fixOperation X (OpEnum e) = OpEnum e"
  by (simp add: fixOperation_def)

lemma fixOperation_name [simp]:
  "fixOperation X (OpText ''Insert'') = OpEnum Insert"
  "fixOperation X (OpText ''Update'') = OpEnum Update"
  "fixOperation X (OpText ''Upsert'') = OpEnum Upsert"
  "fixOperation X (OpText ''Delete'') = OpEnum Delete"
  "fixOperation X (OpText ''Readonly'') = OpEnum Readonly"
  by (simp_all add: fixOperation_def OPERATION_of_name_def)

lemma setup_init_same [simp]:
  "query (setup_init X this) = query this"
  "deleteQuery (setup_init X this) = deleteQuery this"
  "name (setup_init X this) = name this"
  "deleteOldData (setup_init X this) = deleteOldData this"
  "operation (setup_init X this) = fixOperation X (operation this)"
  "isExtraObject (setup_init X this) = isExtraObject this"
  "allRecords (setup_init X this) = allRecords this"
  "externalId (setup_init X this) =
     (if looseEq X (fixOperation X (operation this)) Insert then ''Id'' else externalId this)"
  by (simp_all add: setup_init_def Let_def)

lemma setup_fields_same [simp]:
  "query (setup_fields X this q) = query this"
  "deleteQuery (setup_fields X this q) = deleteQuery this"
  "operation (setup_fields X this q) = operation this"
  "externalId (setup_fields X this q) = externalId this"
  "name (setup_fields X this q) = name this"
  "isExtraObject (setup_fields X this q) = isExtraObject this"
  "allRecords (setup_fields X this q) = allRecords this"
  "deleteOldData (setup_fields X this q)
     = (deleteOldData this \<or> looseEq X (operation this) Delete)"
  by (simp_all add: setup_fields_def Let_def)

lemma parsedQuery_setup_fields:
  "parsedQuery (setup_fields X this q) =
     Some (q\<lparr>qfields :=
       (if looseEq X (operation this) Delete then [getComposedField ''Id'']
        else if Some ''Id'' \<in> field ` set (qfields q) then distinctArray (qfields q) field
        else distinctArray (qfields q) field @ [getComposedField ''Id''])\<rparr>)"
  using keys_distinctArray [of field "qfields q"]
  by (simp add: setup_fields_def fieldsInQuery_def Let_def)

lemma setup_update_same [simp]:
  "parsedQuery (setup_update X this) = parsedQuery this"
  "deleteQuery (setup_update X this) = deleteQuery this"
  "operation (setup_update X this) = operation this"
  "externalId (setup_update X this) = externalId this"
  "deleteOldData (setup_update X this) = deleteOldData this"
  "isExtraObject (setup_update X this) = isExtraObject this"
  "allRecords (setup_update X this) = allRecords this"
  by (simp_all add: setup_update_def split: option.splits)

lemma setup_update_Some:
  "parsedQuery this = Some pq \<Longrightarrow>
     query (setup_update X this) = composeQuery X pq \<and> name (setup_update X this) = sObject pq"
  by (simp add: setup_update_def)

lemma setup_deleteQuery_same:
  assumes "setup_deleteQuery X script this = Inr this'"
  shows "parsedQuery this' = parsedQuery this" "query this' = query this"
    "name this' = name this" "operation this' = operation this"
    "externalId this' = externalId this" "deleteOldData this' = deleteOldData this"
    "isExtraObject this' = isExtraObject this" "allRecords this' = allRecords this"
  using assms by (auto simp: setup_deleteQuery_def Let_def split: if_splits sum.splits)

lemma setup_InrD:
  assumes "ScriptObject_setup X script this = Inr (this', script')"
  obtains q where "parseQuery X (query this) = Inr q"
    and "setup_deleteQuery X script (setup_update X (setup_fields X (setup_init X this) q)) = Inr this'"
    and "script' = script\<lparr>objectsMap := (objectsMap script)(name this' \<mapsto> this')\<rparr>"
  using assms by (auto simp: ScriptObject_setup_def Let_def split: sum.splits)

lemma setup_parsedQuery:
  assumes "ScriptObject_setup X script this = Inr (this', script')"
  obtains q where "parseQuery X (query this) = Inr q"
    and "parsedQuery this' =
     Some (q\<lparr>qfields :=
       (if looseEq X (fixOperation X (operation this)) Delete then [getComposedField ''Id'']
        else if Some ''Id'' \<in> field ` set (qfields q) then distinctArray (qfields q) field
        else distinctArray (qfields q) field @ [getComposedField ''Id''])\<rparr>)"
proof -
  from assms obtain q where q: "parseQuery X (query this) = Inr q"
    and d: "setup_deleteQuery X script (setup_update X (setup_fields X (setup_init X this) q)) = Inr this'"
    by (rule setup_InrD)
  from setup_deleteQuery_same(1) [OF d]
  have "parsedQuery this' = parsedQuery (setup_fields X (setup_init X this) q)" by simp
  then show thesis using q that by (simp add: parsedQuery_setup_fields)
qed

subsection \<open>C1: the record id in the primary query\<close>

text \<open>
  What \<open>ScriptObject.setup\<close> ensures when it completes: some element of the field list
  of the parsed primary query has the field property \<open>Id\<close>. When no element of the
  query as parsed has it, the last element of the list is the plain field \<open>Id\<close>, and
  unless the operation is Delete (where the list is narrowed to \<open>Id\<close> alone) the list
  is the distinct fields of the query with the plain field \<open>Id\<close> appended.
\<close>

lemma setup_query_field_Id:
  assumes "ScriptObject_setup X script this = Inr (this', script')"
  shows "Some ''Id'' \<in> set (fieldsInQuery this') \<and>
    (\<forall>q. parseQuery X (query this) = Inr q \<and> Some ''Id'' \<notin> field ` set (qfields q) \<longrightarrow>
       (\<exists>pq. parsedQuery this' = Some pq \<and> qfields pq \<noteq> []
          \<and> last (qfields pq) = getComposedField ''Id''
          \<and> (\<not> looseEq X (operation this') Delete \<longrightarrow>
                qfields pq = distinctArray (qfields q) field @ [getComposedField ''Id''])))"
proof -
  from assms obtain q where q: "parseQuery X (query this) = Inr q"
    and pq: "parsedQuery this' =
     Some (q\<lparr>qfields :=
       (if looseEq X (fixOperation X (operation this)) Delete then [getComposedField ''Id'']
        else if Some ''Id'' \<in> field ` set (qfields q) then distinctArray (qfields q) field
        else distinctArray (qfields q) field @ [getComposedField ''Id''])\<rparr>)"
    by (rule setup_parsedQuery)
  from assms obtain q' where
    d: "setup_deleteQuery X script (setup_update X (setup_fields X (setup_init X this) q')) = Inr this'"
    by (rule setup_InrD)
  have op: "operation this' = fixOperation X (operation this)"
    using setup_deleteQuery_same(4) [OF d] by simp
  have "Some ''Id'' \<in> set (fieldsInQuery this')"
    using pq keys_distinctArray [of field "qfields q"] by (auto simp: fieldsInQuery_def)
  moreover have "\<exists>pq. parsedQuery this' = Some pq \<and> qfields pq \<noteq> []
          \<and> last (qfields pq) = getComposedField ''Id''
          \<and> (\<not> looseEq X (operation this') Delete \<longrightarrow>
                qfields pq = distinctArray (qfields q) field @ [getComposedField ''Id''])"
    if "Some ''Id'' \<notin> field ` set (qfields q)"
    using pq that by (simp add: op)
  ultimately show ?thesis using q by auto
qed

text \<open>
  C1 fails on a query that reaches \<open>Id\<close> through a relationship. The parser gives the
  field \<open>Account.Id\<close> the field property \<open>Id\<close>, the test \<open>x == "Id"\<close> on the field
  properties succeeds, and nothing is appended, against the comment on that test
  (Add record Id field to each query): after \<open>setup\<close> the query of the Contact entry
  is still \<open>SELECT Account.Id FROM Contact\<close>, and the record id of the entity is not
  in its field list.
\<close>

theorem setup_relationship_Id_not_added:
  "\<exists>plan script' pq.
     ScriptObject_setup ex_externals ex_script ex_contact_parent = Inr (plan, script')
     \<and> parsedQuery plan = Some pq
     \<and> qfields pq = [\<lparr>ftype = ''FieldRelationship'', field = Some ''Id'',
                       relationships = [''Account'']\<rparr>]
     \<and> getComposedField ''Id'' \<notin> set (qfields pq)
     \<and> query plan = ''SELECT Account.Id FROM Contact''"
  by (simp add: object_defs ex_defs ex_contact_parent_def looseEq_def Let_def)

theorem setup_relationship_Id_not_added_witness:
  "\<exists>plan script'.
     ScriptObject_setup ex_externals ex_script ex_contact_parent = Inr (plan, script')
     \<and> query plan = ''SELECT Account.Id FROM Contact''"
proof -
  from setup_relationship_Id_not_added obtain plan script' where
    a: "ScriptObject_setup ex_externals ex_script ex_contact_parent = Inr (plan, script')"
    and b: "query plan = ''SELECT Account.Id FROM Contact''"
    by (elim exE conjE)
  show ?thesis
    by (rule exI [of _ plan], rule exI [of _ script']) (intro conjI a b)
qed

subsection \<open>C2: a Delete queries the record id alone\<close>

text \<open>
  C2. When the operation of an entry is Delete, given as the member of the enum or by
  name, and \<open>ScriptObject.setup\<close> completes, the field list of the parsed primary query
  is exactly \<open>Id\<close> and \<open>deleteOldData\<close> is set.
\<close>

theorem setup_Delete_narrows:
  assumes "operation this = OpEnum Delete \<or> operation this = OpText ''Delete''"
    and "ScriptObject_setup X script this = Inr (this', script')"
  shows "fieldsInQuery this' = [Some ''Id'']
    \<and> (\<exists>pq. parsedQuery this' = Some pq \<and> qfields pq = [getComposedField ''Id''])
    \<and> deleteOldData this' \<and> operation this' = OpEnum Delete"
proof -
  have f: "fixOperation X (operation this) = OpEnum Delete"
    using assms(1) by (auto simp: fixOperation_def OPERATION_of_name_def)
  from assms(2) obtain q where
    d: "setup_deleteQuery X script (setup_update X (setup_fields X (setup_init X this) q)) = Inr this'"
    by (rule setup_InrD)
  from assms(2) obtain q' where "parsedQuery this' = Some (q'\<lparr>qfields := [getComposedField ''Id'']\<rparr>)"
    by (rule setup_parsedQuery) (simp add: f)
  moreover have "deleteOldData this'" "operation this' = OpEnum Delete"
    using setup_deleteQuery_same(4,6) [OF d] f by simp_all
  ultimately show ?thesis by (simp add: fieldsInQuery_def)
qed

theorem setup_Delete_narrows_witness:
  "\<exists>this' script'. (operation ex_contact = OpEnum Delete \<or> operation ex_contact = OpText ''Delete'')
     \<and> ScriptObject_setup ex_externals ex_script ex_contact = Inr (this', script')
     \<and> fieldsInQuery this' = [Some ''Id''] \<and> deleteOldData this'
     \<and> query this' = ''SELECT Id FROM Contact''"
proof -
  have o: "operation ex_contact = OpEnum Delete \<or> operation ex_contact = OpText ''Delete''"
    by (simp add: ex_contact_def)
  have "\<exists>r. ScriptObject_setup ex_externals ex_script ex_contact = Inr r \<and>
          query (fst r) = ''SELECT Id FROM Contact''"
    by (simp add: object_defs ex_defs ex_contact_def Let_def)
  then obtain this' script'
    where r: "ScriptObject_setup ex_externals ex_script ex_contact = Inr (this', script')"
      and "query this' = ''SELECT Id FROM Contact''"
    by auto
  with setup_Delete_narrows [OF o r] o show ?thesis by auto
qed

subsection \<open>C3: an Insert matches on the record id\<close>

text \<open>
  C3. When the operation of an entry is Insert, given as the member of the enum or by
  name, the external id after \<open>ScriptObject.setup\<close> is \<open>Id\<close>, whatever it was before.
  The entry named Account with the query \<open>SELECT Name FROM Account\<close> and the
  operation Insert compiles, with any parser that reads the one field \<open>Name\<close> from
  that text, to a plan with the fields \<open>Name, Id\<close> and the external id \<open>Id\<close>.
\<close>

theorem setup_Insert_externalId:
  "((operation this = OpEnum Insert \<or> operation this = OpText ''Insert'')
      \<and> ScriptObject_setup X script this = Inr (this', script')
     \<longrightarrow> externalId this' = ''Id'' \<and> operation this' = OpEnum Insert)
   \<and> (parseQuery X ''SELECT Name FROM Account'' = Inr q
        \<and> map field (qfields q) = [Some ''Name'']
     \<longrightarrow> (\<exists>plan script'.
           ScriptObject_setup X script
             (new_ScriptObject\<lparr>name := ''Account'', query := ''SELECT Name FROM Account'',
                               operation := OpEnum Insert\<rparr>) = Inr (plan, script')
           \<and> fieldsInQuery plan = [Some ''Name'', Some ''Id'']
           \<and> externalId plan = ''Id'' \<and> operation plan = OpEnum Insert))"
proof (intro conjI impI)
  assume a: "(operation this = OpEnum Insert \<or> operation this = OpText ''Insert'')
      \<and> ScriptObject_setup X script this = Inr (this', script')"
  then have f: "fixOperation X (operation this) = OpEnum Insert"
    by (auto simp: fixOperation_def OPERATION_of_name_def)
  from a obtain q where
    d: "setup_deleteQuery X script (setup_update X (setup_fields X (setup_init X this) q)) = Inr this'"
    by (auto elim: setup_InrD)
  show "externalId this' = ''Id''" "operation this' = OpEnum Insert"
    using setup_deleteQuery_same(4,5) [OF d] f by simp_all
next
  assume p: "parseQuery X ''SELECT Name FROM Account'' = Inr q
        \<and> map field (qfields q) = [Some ''Name'']"
  then obtain x where x: "qfields q = [x]" "field x = Some ''Name''" by auto
  let ?e = "new_ScriptObject\<lparr>name := ''Account'', query := ''SELECT Name FROM Account'',
                               operation := OpEnum Insert\<rparr>"
  have "\<exists>r. ScriptObject_setup X script ?e = Inr r"
    using p by (simp add: ScriptObject_setup_def setup_deleteQuery_def new_ScriptObject_def
        fixOperation_def Let_def)
  then obtain plan script' where r: "ScriptObject_setup X script ?e = Inr (plan, script')"
    by auto
  have o: "operation ?e = OpEnum Insert" by simp
  from r obtain q' where
    d: "setup_deleteQuery X script (setup_update X (setup_fields X (setup_init X ?e) q')) = Inr plan"
    by (rule setup_InrD)
  have "externalId plan = ''Id''" "operation plan = OpEnum Insert"
    using setup_deleteQuery_same(4,5) [OF d] by (simp_all add: fixOperation_def)
  moreover from r have "fieldsInQuery plan = [Some ''Name'', Some ''Id'']"
    by (rule setup_parsedQuery)
      (use p x in \<open>simp add: fixOperation_def fieldsInQuery_def distinctArray_def\<close>)
  ultimately show "\<exists>plan script'. ScriptObject_setup X script ?e = Inr (plan, script')
           \<and> fieldsInQuery plan = [Some ''Name'', Some ''Id'']
           \<and> externalId plan = ''Id'' \<and> operation plan = OpEnum Insert"
    using r by blast
qed

theorem setup_Insert_externalId_witness:
  "\<exists>this' script' plan script''.
     (operation ex_account_text = OpEnum Insert \<or> operation ex_account_text = OpText ''Insert'')
     \<and> ScriptObject_setup ex_externals ex_script ex_account_text = Inr (this', script')
     \<and> externalId ex_account_text = ''Name'' \<and> externalId this' = ''Id''
     \<and> parseQuery ex_externals ''SELECT Name FROM Account'' = Inr (ex_query [''Name''] ''Account'')
     \<and> map field (qfields (ex_query [''Name''] ''Account'')) = [Some ''Name'']
     \<and> ScriptObject_setup ex_externals ex_script ex_account = Inr (plan, script'')
     \<and> fieldsInQuery plan = [Some ''Name'', Some ''Id''] \<and> externalId plan = ''Id''"
proof -
  have o: "operation ex_account_text = OpEnum Insert \<or> operation ex_account_text = OpText ''Insert''"
    and e: "externalId ex_account_text = ''Name''"
    by (simp_all add: ex_account_text_def)
  have p: "parseQuery ex_externals ''SELECT Name FROM Account'' = Inr (ex_query [''Name''] ''Account'')"
    and m: "map field (qfields (ex_query [''Name''] ''Account'')) = [Some ''Name'']"
    by (simp_all add: ex_defs getComposedField_def)
  have "\<exists>r. ScriptObject_setup ex_externals ex_script ex_account_text = Inr r"
    by (simp add: object_defs ex_defs ex_account_text_def Let_def)
  then obtain this' script'
    where r: "ScriptObject_setup ex_externals ex_script ex_account_text = Inr (this', script')"
    by auto
  note t = setup_Insert_externalId [of ex_account_text ex_externals ex_script this' script'
      "ex_query [''Name''] ''Account''"]
  from t o r have i: "externalId this' = ''Id''" by blast
  from t p m obtain plan script'' where
    s: "ScriptObject_setup ex_externals ex_script ex_account = Inr (plan, script'')"
    and f: "fieldsInQuery plan = [Some ''Name'', Some ''Id'']" and x: "externalId plan = ''Id''"
    unfolding ex_account_def by blast
  show ?thesis
    by (rule exI [of _ this'], rule exI [of _ script'], rule exI [of _ plan],
        rule exI [of _ script'']) (intro conjI o r e i p m s f x)
qed

subsection \<open>C6: the delete query\<close>

lemma setup_deleteQuery_Inl:
  assumes "deleteOldData this"
    and "parseQuery X (if deleteQuery this \<noteq> [] then deleteQuery this else query this) = Inl ex"
  shows "setup_deleteQuery X script this =
    Inl (CommandInitializationError MalformedDeleteQuery [name this, deleteQuery this, ex])"
  using assms by (simp add: setup_deleteQuery_def)

lemma setup_deleteQuery_InrD:
  assumes "setup_deleteQuery X script this = Inr this'" and "deleteOldData this"
  obtains base dq where
    "parseQuery X (if deleteQuery this \<noteq> [] then deleteQuery this else query this) = Inr base"
    and "parsedDeleteQuery this' = Some dq" and "deleteQuery this' = composeQuery X dq"
    and "qfields dq = [getComposedField ''Id'']"
    and "whereClause dq =
           (if isPersonAccountEnabled (sourceOrg script) \<and> name this = ''Contact''
            then Some (composeWhereClause (whereClause base) ''IsPersonAccount''
                         (Value ''false'') ''='' ''BOOLEAN'' ''AND'')
            else whereClause base)"
    and "sObject dq = sObject base" and "orderBy dq = orderBy base"
    and "limitRows dq = limitRows base"
proof (cases "parseQuery X (if deleteQuery this \<noteq> [] then deleteQuery this else query this)")
  case (Inl ex)
  with assms show ?thesis by (simp add: setup_deleteQuery_Inl)
next
  case (Inr base)
  define dq where "dq =
     (if isPersonAccountEnabled (sourceOrg script) \<and> name this = ''Contact''
      then base\<lparr>qfields := [getComposedField ''Id''],
                whereClause := Some (composeWhereClause (whereClause base) ''IsPersonAccount''
                                       (Value ''false'') ''='' ''BOOLEAN'' ''AND'')\<rparr>
      else base\<lparr>qfields := [getComposedField ''Id'']\<rparr>)"
  have "this' = this\<lparr>parsedDeleteQuery := Some dq, deleteQuery := composeQuery X dq\<rparr>"
    using assms Inr by (auto simp: setup_deleteQuery_def dq_def Let_def)
  then have "parsedDeleteQuery this' = Some dq" "deleteQuery this' = composeQuery X dq"
    by simp_all
  moreover have "qfields dq = [getComposedField ''Id'']" "sObject dq = sObject base"
    "orderBy dq = orderBy base" "limitRows dq = limitRows base"
    "whereClause dq =
           (if isPersonAccountEnabled (sourceOrg script) \<and> name this = ''Contact''
            then Some (composeWhereClause (whereClause base) ''IsPersonAccount''
                         (Value ''false'') ''='' ''BOOLEAN'' ''AND'')
            else whereClause base)"
    by (simp_all add: dq_def)
  ultimately show ?thesis using Inr that by blast
qed

text \<open>
  C6. When \<open>ScriptObject.setup\<close> completes with \<open>deleteOldData\<close> set, the plan has a
  parsed delete query whose field list is exactly \<open>Id\<close>. It is the parse of the delete
  query of the entry when that text is not empty, and otherwise of the primary query
  text as \<open>setup\<close> recomposed it, with the fields replaced and, when the source org has
  person accounts and the entity is Contact, the condition \<open>IsPersonAccount = false\<close>
  joined with AND onto its where clause; the delete query text is its composition.
  When the primary query parses, old data is to be deleted and the parse of that base
  text throws, \<open>setup\<close> throws the initialization error of the malformed delete query,
  with the entity name of the primary query and the delete query text of the entry.
\<close>

theorem setup_compiles_deleteQuery:
  "(ScriptObject_setup X script this = Inr (this', script') \<and> deleteOldData this' \<longrightarrow>
      (\<exists>pq base dq.
         parsedQuery this' = Some pq \<and> query this' = composeQuery X pq
         \<and> parseQuery X (if deleteQuery this \<noteq> [] then deleteQuery this else query this')
             = Inr base
         \<and> parsedDeleteQuery this' = Some dq \<and> deleteQuery this' = composeQuery X dq
         \<and> qfields dq = [getComposedField ''Id'']
         \<and> whereClause dq =
             (if isPersonAccountEnabled (sourceOrg script) \<and> name this' = ''Contact''
              then Some (composeWhereClause (whereClause base) ''IsPersonAccount''
                           (Value ''false'') ''='' ''BOOLEAN'' ''AND'')
              else whereClause base)
         \<and> sObject dq = sObject base \<and> orderBy dq = orderBy base
         \<and> limitRows dq = limitRows base))
   \<and> (parseQuery X (query this) = Inr q
        \<and> (deleteOldData this \<or> fixOperation X (operation this) = OpEnum Delete)
        \<and> parseQuery X (if deleteQuery this \<noteq> [] then deleteQuery this
                         else query (setup_update X (setup_fields X (setup_init X this) q))) = Inl ex
      \<longrightarrow> ScriptObject_setup X script this =
            Inl (CommandInitializationError MalformedDeleteQuery [sObject q, deleteQuery this, ex]))"
proof (intro conjI impI)
  assume a: "ScriptObject_setup X script this = Inr (this', script') \<and> deleteOldData this'"
  then obtain q where q: "parseQuery X (query this) = Inr q"
    and d: "setup_deleteQuery X script (setup_update X (setup_fields X (setup_init X this) q)) = Inr this'"
    by (auto elim: setup_InrD)
  define mid where "mid = setup_update X (setup_fields X (setup_init X this) q)"
  obtain pq where pq: "parsedQuery mid = Some pq"
    by (simp add: mid_def parsedQuery_setup_fields)
  have m: "query mid = composeQuery X pq"
    using pq setup_update_Some [of "setup_fields X (setup_init X this) q" pq X]
    by (simp add: mid_def)
  have dm: "setup_deleteQuery X script mid = Inr this'"
    using d by (simp add: mid_def)
  have same: "parsedQuery this' = Some pq" "query this' = composeQuery X pq"
    "name mid = name this'" "query mid = query this'"
    using setup_deleteQuery_same(1,2,3) [OF dm] pq m by simp_all
  have del: "deleteOldData mid"
    using setup_deleteQuery_same(6) [OF dm] a by simp
  have dq: "deleteQuery mid = deleteQuery this"
    by (simp add: mid_def)
  from dm del show "\<exists>pq base dq.
         parsedQuery this' = Some pq \<and> query this' = composeQuery X pq
         \<and> parseQuery X (if deleteQuery this \<noteq> [] then deleteQuery this else query this')
             = Inr base
         \<and> parsedDeleteQuery this' = Some dq \<and> deleteQuery this' = composeQuery X dq
         \<and> qfields dq = [getComposedField ''Id'']
         \<and> whereClause dq =
             (if isPersonAccountEnabled (sourceOrg script) \<and> name this' = ''Contact''
              then Some (composeWhereClause (whereClause base) ''IsPersonAccount''
                           (Value ''false'') ''='' ''BOOLEAN'' ''AND'')
              else whereClause base)
         \<and> sObject dq = sObject base \<and> orderBy dq = orderBy base
         \<and> limitRows dq = limitRows base"
  proof (rule setup_deleteQuery_InrD)
    fix base dq
    assume "parseQuery X (if deleteQuery mid \<noteq> [] then deleteQuery mid else query mid) = Inr base"
      and r: "parsedDeleteQuery this' = Some dq" "deleteQuery this' = composeQuery X dq"
      "qfields dq = [getComposedField ''Id'']"
      "whereClause dq =
           (if isPersonAccountEnabled (sourceOrg script) \<and> name mid = ''Contact''
            then Some (composeWhereClause (whereClause base) ''IsPersonAccount''
                         (Value ''false'') ''='' ''BOOLEAN'' ''AND'')
            else whereClause base)"
      "sObject dq = sObject base" "orderBy dq = orderBy base" "limitRows dq = limitRows base"
    then have "parseQuery X (if deleteQuery this \<noteq> [] then deleteQuery this else query this')
             = Inr base"
      unfolding dq same(4) by simp
    with r same show ?thesis
      unfolding same(3) by (intro exI [of _ pq] exI [of _ base] exI [of _ dq] conjI)
  qed
next
  assume a: "parseQuery X (query this) = Inr q
        \<and> (deleteOldData this \<or> fixOperation X (operation this) = OpEnum Delete)
        \<and> parseQuery X (if deleteQuery this \<noteq> [] then deleteQuery this
                         else query (setup_update X (setup_fields X (setup_init X this) q))) = Inl ex"
  define mid where "mid = setup_update X (setup_fields X (setup_init X this) q)"
  have n: "name mid = sObject q"
    using setup_update_Some [of "setup_fields X (setup_init X this) q" _ X]
    by (simp add: mid_def parsedQuery_setup_fields)
  have del: "deleteOldData mid" and dq: "deleteQuery mid = deleteQuery this"
    using a by (auto simp: mid_def)
  have "parseQuery X (if deleteQuery mid \<noteq> [] then deleteQuery mid else query mid) = Inl ex"
    by (simp only: dq) (use a in \<open>simp only: mid_def\<close>)
  then have "setup_deleteQuery X script mid =
          Inl (CommandInitializationError MalformedDeleteQuery [sObject q, deleteQuery this, ex])"
    using setup_deleteQuery_Inl [OF del, of X ex script] by (simp add: n dq)
  then show "ScriptObject_setup X script this =
            Inl (CommandInitializationError MalformedDeleteQuery [sObject q, deleteQuery this, ex])"
    using a by (simp add: ScriptObject_setup_def Let_def mid_def)
qed

theorem setup_compiles_deleteQuery_witness:
  "\<exists>this' script' dq.
     ScriptObject_setup ex_externals ex_script_pa ex_contact_update = Inr (this', script')
     \<and> deleteOldData this'
     \<and> deleteQuery this' = ''SELECT Id FROM Contact WHERE IsPersonAccount = false''
     \<and> parsedDeleteQuery this' = Some dq \<and> qfields dq = [getComposedField ''Id'']
     \<and> parseQuery ex_externals (query ex_contact_bad)
          = Inr (ex_query [''Id'', ''RecordTypeId''] ''Contact'')
     \<and> (deleteOldData ex_contact_bad \<or> fixOperation ex_externals (operation ex_contact_bad) = OpEnum Delete)
     \<and> parseQuery ex_externals (deleteQuery ex_contact_bad) = Inl ''unexpected token''
     \<and> ScriptObject_setup ex_externals ex_script_pa ex_contact_bad =
          Inl (CommandInitializationError MalformedDeleteQuery
                 [''Contact'', ''DELETE Contact'', ''unexpected token''])"
proof -
  have "\<exists>r. ScriptObject_setup ex_externals ex_script_pa ex_contact_update = Inr r
          \<and> deleteOldData (fst r)
          \<and> deleteQuery (fst r) = ''SELECT Id FROM Contact WHERE IsPersonAccount = false''"
    by (simp add: object_defs ex_defs ex_contact_update_def ex_script_pa_def Let_def)
  then obtain this' script'
    where r: "ScriptObject_setup ex_externals ex_script_pa ex_contact_update = Inr (this', script')"
      and d: "deleteOldData this'"
      and q: "deleteQuery this' = ''SELECT Id FROM Contact WHERE IsPersonAccount = false''"
    by auto
  have b1: "parseQuery ex_externals (query ex_contact_bad)
          = Inr (ex_query [''Id'', ''RecordTypeId''] ''Contact'')"
    and b2: "deleteOldData ex_contact_bad \<or> fixOperation ex_externals (operation ex_contact_bad) = OpEnum Delete"
    and b3: "parseQuery ex_externals (deleteQuery ex_contact_bad) = Inl ''unexpected token''"
    and b4: "deleteQuery ex_contact_bad = ''DELETE Contact''"
    by (simp_all add: ex_defs ex_contact_bad_def ex_contact_update_def new_ScriptObject_def)
  from setup_compiles_deleteQuery [where X = ex_externals and script = ex_script_pa
      and this = ex_contact_update and this' = this' and script' = script'] r d
  obtain dq where dq: "parsedDeleteQuery this' = Some dq" "qfields dq = [getComposedField ''Id'']"
    by blast
  have b5: "parseQuery ex_externals (if deleteQuery ex_contact_bad \<noteq> [] then deleteQuery ex_contact_bad
       else query (setup_update ex_externals (setup_fields ex_externals (setup_init ex_externals ex_contact_bad)
                (ex_query [''Id'', ''RecordTypeId''] ''Contact'')))) = Inl ''unexpected token''"
    using b3 by (simp add: b4)
  from setup_compiles_deleteQuery [where X = ex_externals and script = ex_script_pa
      and this = ex_contact_bad and q = "ex_query [''Id'', ''RecordTypeId''] ''Contact''"
      and ex = "''unexpected token''"] b1 b2 b5
  have "ScriptObject_setup ex_externals ex_script_pa ex_contact_bad =
          Inl (CommandInitializationError MalformedDeleteQuery
                 [sObject (ex_query [''Id'', ''RecordTypeId''] ''Contact''),
                  deleteQuery ex_contact_bad, ''unexpected token''])"
    by blast
  then have e: "ScriptObject_setup ex_externals ex_script_pa ex_contact_bad =
          Inl (CommandInitializationError MalformedDeleteQuery
                 [''Contact'', ''DELETE Contact'', ''unexpected token''])"
    by (simp add: b4 ex_query_def)
  show ?thesis
    by (rule exI [of _ this'], rule exI [of _ script'], rule exI [of _ dq])
      (intro conjI r d q dq b1 b2 b3 e)
qed

subsection \<open>C9: the entity name and the object map\<close>

lemma setup_name:
  assumes "ScriptObject_setup X script this = Inr (this', script')"
  obtains q pq where "parseQuery X (query this) = Inr q" and "parsedQuery this' = Some pq"
    and "sObject pq = sObject q" and "name this' = sObject q"
proof -
  from assms obtain q where q: "parseQuery X (query this) = Inr q"
    and d: "setup_deleteQuery X script (setup_update X (setup_fields X (setup_init X this) q)) = Inr this'"
    by (rule setup_InrD)
  obtain pq where pq: "parsedQuery (setup_fields X (setup_init X this) q) = Some pq"
    and s: "sObject pq = sObject q"
    by (simp add: parsedQuery_setup_fields)
  have "parsedQuery this' = Some pq" "name this' = sObject q"
    using setup_deleteQuery_same(1,3) [OF d] pq s setup_update_Some [OF pq, of X] by simp_all
  with q s that show thesis by blast
qed

lemma setup_objectsMap:
  assumes "ScriptObject_setup X script this = Inr (this', script')"
  shows "objectsMap script' = (objectsMap script)(name this' \<mapsto> this')"
  using assms by (rule setup_InrD) simp

lemma setupObjects_objectsMap:
  "setupObjects X script os = Inr (os', script') \<Longrightarrow>
   objectsMap script' n =
     (case filter (\<lambda>p. name p = n) os' of
        [] \<Rightarrow> objectsMap script n
      | p # ps \<Rightarrow> Some (last (p # ps)))"
proof (induction os arbitrary: script os' script')
  case Nil
  then show ?case by simp
next
  case (Cons object rest)
  from Cons.prems obtain object' script1 rest' where
    s: "ScriptObject_setup X script object = Inr (object', script1)"
    and r: "setupObjects X script1 rest = Inr (rest', script')"
    and os': "os' = object' # rest'"
    by (auto split: sum.splits)
  have m: "objectsMap script1 = (objectsMap script)(name object' \<mapsto> object')"
    using s by (rule setup_objectsMap)
  show ?case
    using Cons.IH [OF r] by (simp add: os' m split: list.splits)
qed

text \<open>
  C9. When \<open>ScriptObject.setup\<close> completes, the name of the plan is the entity of the
  parsed primary query, whatever name the entry carried, and the object map of the
  script is the former map with the plan entered under that name. After the loop over
  the entries, the map gives for a name the last plan of the list with that name, and
  its former entry when no plan has the name.
\<close>

theorem setup_registers_plan:
  "(ScriptObject_setup X script this = Inr (this', script') \<longrightarrow>
      (\<exists>q pq. parseQuery X (query this) = Inr q \<and> parsedQuery this' = Some pq
         \<and> sObject pq = sObject q \<and> name this' = sObject q)
      \<and> objectsMap script' = (objectsMap script)(name this' \<mapsto> this'))
   \<and> (setupObjects X script os = Inr (os', script') \<longrightarrow>
        objectsMap script' n =
          (case filter (\<lambda>p. name p = n) os' of
             [] \<Rightarrow> objectsMap script n
           | p # ps \<Rightarrow> Some (last (p # ps))))"
proof (intro conjI impI)
  assume a: "ScriptObject_setup X script this = Inr (this', script')"
  from a show "\<exists>q pq. parseQuery X (query this) = Inr q \<and> parsedQuery this' = Some pq
         \<and> sObject pq = sObject q \<and> name this' = sObject q"
    by (rule setup_name) blast
  from a show "objectsMap script' = (objectsMap script)(name this' \<mapsto> this')"
    by (rule setup_objectsMap)
next
  assume "setupObjects X script os = Inr (os', script')"
  then show "objectsMap script' n =
          (case filter (\<lambda>p. name p = n) os' of
             [] \<Rightarrow> objectsMap script n
           | p # ps \<Rightarrow> Some (last (p # ps)))"
    by (rule setupObjects_objectsMap)
qed

theorem setup_registers_plan_witness:
  "\<exists>first script1 plans script2 second.
     ScriptObject_setup ex_externals ex_script ex_account_upsert = Inr (first, script1)
     \<and> name ex_account_upsert = ''Accounts again'' \<and> name first = ''Account''
     \<and> objectsMap script1 ''Account'' = Some first
     \<and> setupObjects ex_externals ex_script [ex_account, ex_account_upsert] = Inr (plans, script2)
     \<and> map name plans = [''Account'', ''Account'']
     \<and> plans ! 1 = second \<and> operation second = OpEnum Upsert
     \<and> objectsMap script2 ''Account'' = Some second"
proof -
  have "\<exists>r. ScriptObject_setup ex_externals ex_script ex_account_upsert = Inr r
           \<and> name (fst r) = ''Account''"
    by (simp add: object_defs ex_defs ex_account_upsert_def Let_def)
  then obtain first script1 where
    r: "ScriptObject_setup ex_externals ex_script ex_account_upsert = Inr (first, script1)"
    and n: "name first = ''Account''"
    by auto
  have n0: "name ex_account_upsert = ''Accounts again''"
    by (simp add: ex_account_upsert_def)
  from setup_registers_plan [where X = ex_externals and script = ex_script
      and this = ex_account_upsert and this' = first and script' = script1] r
  have "objectsMap script1 = (objectsMap ex_script)(name first \<mapsto> first)" by blast
  then have m1: "objectsMap script1 ''Account'' = Some first" by (simp add: n)
  have "\<exists>r. setupObjects ex_externals ex_script [ex_account, ex_account_upsert] = Inr r
           \<and> map name (fst r) = [''Account'', ''Account'']
           \<and> operation (fst r ! 1) = OpEnum Upsert"
    by (simp add: object_defs ex_defs ex_account_def ex_account_upsert_def Let_def)
  then obtain plans script2 where
    l: "setupObjects ex_externals ex_script [ex_account, ex_account_upsert] = Inr (plans, script2)"
    and ns: "map name plans = [''Account'', ''Account'']"
    and o: "operation (plans ! 1) = OpEnum Upsert"
    by auto
  from ns obtain a b where ab: "plans = [a, b]" "name a = ''Account''" "name b = ''Account''"
    by auto
  from setup_registers_plan [where X = ex_externals and script = ex_script
      and os = "[ex_account, ex_account_upsert]" and os' = plans and script' = script2
      and n = "''Account''"] l
  have "objectsMap script2 ''Account'' =
          (case filter (\<lambda>p. name p = ''Account'') plans of
             [] \<Rightarrow> objectsMap ex_script ''Account''
           | p # ps \<Rightarrow> Some (last (p # ps)))"
    by blast
  then have m2: "objectsMap script2 ''Account'' = Some (plans ! 1)"
    by (simp add: ab)
  show ?thesis
    by (rule exI [of _ first], rule exI [of _ script1], rule exI [of _ plans],
        rule exI [of _ script2], rule exI [of _ "plans ! 1"])
      (intro conjI r n0 n m1 l ns refl o m2)
qed

subsection \<open>The stages of Script.setupAsync\<close>

lemmas script_defs =
  Script_setupAsync_def initScript_def removeExcluded_def assignOrgs_def setupOrgs_def
  ScriptOrg_setupAsync_def setupConnection_def validateAccessTokenAsync_def
  parseForceOrgDisplayResult_def parseLine_def startsWith_def OrgInfo_isConnected_def
  new_OrgInfo_def isConnected_def isFileMedia_def mediaOf_def toLowerCase_def
  toLowerCase_char_def findOrg_def sameOrg_def removeUnsupported_def addRecordTypeObject_def
  hasRecordTypeIdField_def composeWhereClause_default_def


lemma objects_setupOrgs:
  "setupOrgs X s su tu = Inr s' \<Longrightarrow> objects s' = objects s \<and> objectsMap s' = objectsMap s"
  by (auto simp: setupOrgs_def split: sum.splits if_splits)

lemma objects_assignOrgs [simp]:
  "objects (assignOrgs s su tu) = objects s" "objectsMap (assignOrgs s su tu) = objectsMap s"
  by (simp_all add: assignOrgs_def Let_def)

lemma setupAsync_InrD:
  assumes "Script_setupAsync X this su tu bp av = Inr final"
  obtains this1 plans this2 where
    "objects (removeExcluded X (initScript this su tu bp av)) \<noteq> []"
    and "setupOrgs X (assignOrgs (removeExcluded X (initScript this su tu bp av)) su tu) su tu
           = Inr this1"
    and "setupObjects X this1 (objects (removeExcluded X (initScript this su tu bp av)))
           = Inr (plans, this2)"
    and "addRecordTypeObject X (removeUnsupported X (this2\<lparr>objects := plans\<rparr>)) = Inr final"
proof -
  define start where "start = removeExcluded X (initScript this su tu bp av)"
  have ne: "objects start \<noteq> []"
    using assms by (auto simp: Script_setupAsync_def start_def Let_def split: if_splits)
  with assms obtain this1 where o: "setupOrgs X (assignOrgs start su tu) su tu = Inr this1"
    by (cases "setupOrgs X (assignOrgs start su tu) su tu")
      (simp_all add: Script_setupAsync_def start_def Let_def)
  then have same: "objects this1 = objects start"
    using objects_setupOrgs [OF o] by simp
  from assms ne o obtain plans this2 where
    p: "setupObjects X this1 (objects this1) = Inr (plans, this2)"
    by (cases "setupObjects X this1 (objects this1)")
      (auto simp: Script_setupAsync_def start_def Let_def)
  from assms ne o p
  have "addRecordTypeObject X (removeUnsupported X (this2\<lparr>objects := plans\<rparr>)) = Inr final"
    by (simp add: Script_setupAsync_def start_def Let_def)
  with ne o p same that show thesis
    unfolding start_def by simp
qed

lemma addRecordTypeObject_none:
  "filter hasRecordTypeIdField (objects s) = [] \<Longrightarrow> addRecordTypeObject X s = Inr s"
  by (simp add: addRecordTypeObject_def)

lemma setup_script_same:
  assumes "ScriptObject_setup X script this = Inr (this', script')"
  shows "objects script' = objects script"
  using assms by (rule setup_InrD) simp

lemma addRecordTypeObject_InrD:
  assumes "addRecordTypeObject X s = Inr final"
    and "filter hasRecordTypeIdField (objects s) \<noteq> []"
  obtains rt rq pq where "parseQuery X ''SELECT Id FROM RecordType'' = Inr rq"
    and "objects final = objects s @ [rt]"
    and "objectsMap final = (objectsMap s)(name rt \<mapsto> rt)"
    and "name rt = sObject rq" and "operation rt = OpEnum Readonly"
    and "externalId rt = ''DeveloperName''" and "isExtraObject rt" and "allRecords rt"
    and "parsedQuery rt = Some pq" and "query rt = composeQuery X pq"
    and "whereClause pq = Some (composeWhereClause_default (whereClause rq) ''SobjectType''
            (Values (map name (filter hasRecordTypeIdField (objects s)))))"
    and "orderBy pq = Some \<lparr>ofield = ''SobjectType'', order = ''ASC''\<rparr>"
proof -
  define e where "e = new_ScriptObject\<lparr>name := ''RecordType'', externalId := ''DeveloperName'',
                      isExtraObject := True, allRecords := True,
                      query := ''SELECT Id FROM RecordType'',
                      operation := OpEnum Readonly\<rparr>"
  define names where "names = map name (filter hasRecordTypeIdField (objects s))"
  have ne: "names \<noteq> []" using assms(2) by (simp add: names_def)
  have fe: "fixOperation X (operation e) = OpEnum Readonly" "query e = ''SELECT Id FROM RecordType''"
    "externalId e = ''DeveloperName''" "isExtraObject e" "allRecords e"
    by (simp_all add: e_def fixOperation_def)
  from assms(1) ne obtain object this' where
    su: "ScriptObject_setup X s e = Inr (object, this')"
    by (cases "ScriptObject_setup X s e")
      (auto simp: addRecordTypeObject_def e_def names_def Let_def)
  from su obtain rq pq0 where rq: "parseQuery X (query e) = Inr rq"
    and pq0: "parsedQuery object = Some pq0" "sObject pq0 = sObject rq" "name object = sObject rq"
    by (rule setup_name)
  from su obtain q where
    pq0': "parsedQuery object = Some (q\<lparr>qfields :=
       (if looseEq X (fixOperation X (operation e)) Delete then [getComposedField ''Id'']
        else if Some ''Id'' \<in> field ` set (qfields q) then distinctArray (qfields q) field
        else distinctArray (qfields q) field @ [getComposedField ''Id''])\<rparr>)"
    and "parseQuery X (query e) = Inr q"
    by (rule setup_parsedQuery)
  with rq pq0 have w0: "whereClause pq0 = whereClause rq" by auto
  from su obtain q' where
    d: "setup_deleteQuery X s (setup_update X (setup_fields X (setup_init X e) q')) = Inr object"
    by (rule setup_InrD)
  have ob: "operation object = OpEnum Readonly" "externalId object = ''DeveloperName''"
    "isExtraObject object" "allRecords object"
    using setup_deleteQuery_same(4,5,7,8) [OF d] fe by simp_all
  have m: "objectsMap this' = (objectsMap s)(name object \<mapsto> object)"
    using su by (rule setup_objectsMap)
  have os: "objects this' = objects s"
    using su by (rule setup_script_same)
  define pq where "pq = pq0\<lparr>whereClause := Some (composeWhereClause_default
                                       (whereClause pq0) ''SobjectType'' (Values names)),
                              orderBy := Some \<lparr>ofield = ''SobjectType'', order = ''ASC''\<rparr>\<rparr>"
  define rt where "rt = object\<lparr>parsedQuery := Some pq, query := composeQuery X pq\<rparr>"
  have fin: "final = this'\<lparr>objects := objects this' @ [rt],
                           objectsMap := (objectsMap this')(name rt \<mapsto> rt)\<rparr>"
    using assms(1) ne su pq0(1)
    by (simp add: addRecordTypeObject_def e_def [symmetric] names_def [symmetric] Let_def
        pq_def rt_def)
  have n: "name rt = name object" by (simp add: rt_def)
  show thesis
  proof (rule that [of rq rt pq])
    show "parseQuery X ''SELECT Id FROM RecordType'' = Inr rq" using rq fe by simp
    show "objects final = objects s @ [rt]" by (simp add: fin os)
    show "objectsMap final = (objectsMap s)(name rt \<mapsto> rt)" by (simp add: fin m n)
    show "name rt = sObject rq" by (simp add: n pq0)
    show "operation rt = OpEnum Readonly" "externalId rt = ''DeveloperName''"
      "isExtraObject rt" "allRecords rt"
      using ob by (simp_all add: rt_def)
    show "parsedQuery rt = Some pq" "query rt = composeQuery X pq" by (simp_all add: rt_def)
    show "whereClause pq = Some (composeWhereClause_default (whereClause rq) ''SobjectType''
            (Values (map name (filter hasRecordTypeIdField (objects s)))))"
      by (simp add: pq_def w0 names_def)
    show "orderBy pq = Some \<lparr>ofield = ''SobjectType'', order = ''ASC''\<rparr>"
      by (simp add: pq_def)
  qed
qed



subsection \<open>C5: one RecordType plan\<close>



subsection \<open>C10: an unsupported object stays in the object map\<close>

lemma objectsMap_addRecordTypeObject:
  assumes "addRecordTypeObject X s = Inr final" and "objectsMap s n \<noteq> None"
  shows "objectsMap final n \<noteq> None"
proof (cases "filter hasRecordTypeIdField (objects s) = []")
  case True
  then have "addRecordTypeObject X s = Inr s" by (rule addRecordTypeObject_none)
  with assms show ?thesis by simp
next
  case False
  with assms(1) obtain rt where "objectsMap final = (objectsMap s)(name rt \<mapsto> rt)"
    by (rule addRecordTypeObject_InrD)
  with assms(2) show ?thesis by simp
qed

lemma objects_addRecordTypeObject:
  assumes "addRecordTypeObject X s = Inr final"
  obtains extra where "objects final = objects s @ extra" and "length extra \<le> 1"
    and "filter hasRecordTypeIdField (objects s) = [] \<longrightarrow> extra = []"
proof (cases "filter hasRecordTypeIdField (objects s) = []")
  case True
  then have "addRecordTypeObject X s = Inr s" by (rule addRecordTypeObject_none)
  with assms have "objects final = objects s @ []" by simp
  then show ?thesis using that by simp
next
  case False
  with assms obtain rt where "objects final = objects s @ [rt]"
    by (rule addRecordTypeObject_InrD)
  then show ?thesis using that False by simp
qed

text \<open>
  C10. Let \<open>Script.setupAsync\<close> complete, and let \<open>p\<close> be one of the plans the loop over
  the entries compiled, with a name on the list of unsupported objects. Then the object
  list is the compiled plans without the unsupported ones, followed by at most the one
  added plan, so \<open>p\<close> is not among the plans kept; and the object map still has an entry
  under the name of \<open>p\<close>. When no RecordType plan is added, the name of \<open>p\<close> is a key of
  the map and the name of no plan of the object list.
\<close>

theorem setupAsync_unsupported_in_map:
  assumes "Script_setupAsync X this su tu bp av = Inr final"
    and "setupOrgs X (assignOrgs (removeExcluded X (initScript this su tu bp av)) su tu) su tu
           = Inr this1"
    and "setupObjects X this1 (objects (removeExcluded X (initScript this su tu bp av)))
           = Inr (plans, this2)"
    and "p \<in> set plans" and "name p \<in> set (NOT_SUPPORTED_OBJECTS X)"
  shows "objectsMap final (name p) \<noteq> None
    \<and> (\<exists>extra. objects final = filter (\<lambda>x. name x \<notin> set (NOT_SUPPORTED_OBJECTS X)) plans @ extra
          \<and> length extra \<le> 1)
    \<and> name p \<notin> name ` set (filter (\<lambda>x. name x \<notin> set (NOT_SUPPORTED_OBJECTS X)) plans)
    \<and> (filter hasRecordTypeIdField
          (filter (\<lambda>x. name x \<notin> set (NOT_SUPPORTED_OBJECTS X)) plans) = []
        \<longrightarrow> name p \<notin> name ` set (objects final))"
proof -
  from assms(1) obtain this1' plans' this2' where
    o: "setupOrgs X (assignOrgs (removeExcluded X (initScript this su tu bp av)) su tu) su tu
           = Inr this1'"
    and l: "setupObjects X this1' (objects (removeExcluded X (initScript this su tu bp av)))
           = Inr (plans', this2')"
    and r: "addRecordTypeObject X (removeUnsupported X (this2'\<lparr>objects := plans'\<rparr>)) = Inr final"
    by (rule setupAsync_InrD)
  from o assms(2) have "this1' = this1" by simp
  with l assms(3) have eq: "plans' = plans" "this2' = this2" by simp_all
  define s where "s = removeUnsupported X (this2\<lparr>objects := plans\<rparr>)"
  define kept where "kept = filter (\<lambda>x. name x \<notin> set (NOT_SUPPORTED_OBJECTS X)) plans"
  have os: "objects s = kept" "objectsMap s = objectsMap this2"
    by (simp_all add: s_def kept_def removeUnsupported_def)
  have r': "addRecordTypeObject X s = Inr final" using r by (simp add: eq s_def)
  have "filter (\<lambda>q. name q = name p) plans \<noteq> []"
    using assms(4) by (auto simp: filter_empty_conv)
  then have "objectsMap this2 (name p) \<noteq> None"
    using setupObjects_objectsMap [OF assms(3), of "name p"] by (simp split: list.splits)
  then have m: "objectsMap final (name p) \<noteq> None"
    using objectsMap_addRecordTypeObject [OF r'] os by simp
  from r' obtain extra where e0: "objects final = objects s @ extra" "length extra \<le> 1"
    "filter hasRecordTypeIdField (objects s) = [] \<longrightarrow> extra = []"
    by (rule objects_addRecordTypeObject)
  note e = e0 [unfolded os]
  have k: "name p \<notin> name ` set kept"
    using assms(5) by (auto simp: kept_def)
  have "name p \<notin> name ` set (objects final)" if "filter hasRecordTypeIdField kept = []"
    using e(1) e(3) that k by simp
  with m e(1,2) k show ?thesis unfolding kept_def by blast
qed

theorem setupAsync_unsupported_in_map_witness:
  "\<exists>final this1 plans this2.
     Script_setupAsync ex_externals ex_script_profile ''csvfile'' ''csvfile'' [] [] = Inr final
     \<and> setupOrgs ex_externals (assignOrgs (removeExcluded ex_externals
           (initScript ex_script_profile ''csvfile'' ''csvfile'' [] [])) ''csvfile'' ''csvfile'')
           ''csvfile'' ''csvfile'' = Inr this1
     \<and> setupObjects ex_externals this1 (objects (removeExcluded ex_externals
           (initScript ex_script_profile ''csvfile'' ''csvfile'' [] []))) = Inr (plans, this2)
     \<and> plans ! 1 \<in> set plans \<and> name (plans ! 1) = ''Profile''
     \<and> name (plans ! 1) \<in> set (NOT_SUPPORTED_OBJECTS ex_externals)
     \<and> filter hasRecordTypeIdField
          (filter (\<lambda>x. name x \<notin> set (NOT_SUPPORTED_OBJECTS ex_externals)) plans) = []
     \<and> objectsMap final ''Profile'' \<noteq> None
     \<and> ''Profile'' \<notin> name ` set (objects final)"
proof -
  have "\<exists>final this1 plans this2.
     Script_setupAsync ex_externals ex_script_profile ''csvfile'' ''csvfile'' [] [] = Inr final
     \<and> setupOrgs ex_externals (assignOrgs (removeExcluded ex_externals
           (initScript ex_script_profile ''csvfile'' ''csvfile'' [] [])) ''csvfile'' ''csvfile'')
           ''csvfile'' ''csvfile'' = Inr this1
     \<and> setupObjects ex_externals this1 (objects (removeExcluded ex_externals
           (initScript ex_script_profile ''csvfile'' ''csvfile'' [] []))) = Inr (plans, this2)
     \<and> plans ! 1 \<in> set plans \<and> name (plans ! 1) = ''Profile''
     \<and> name (plans ! 1) \<in> set (NOT_SUPPORTED_OBJECTS ex_externals)
     \<and> filter hasRecordTypeIdField
          (filter (\<lambda>x. name x \<notin> set (NOT_SUPPORTED_OBJECTS ex_externals)) plans) = []"
    by (simp add: script_defs object_defs ex_defs ex_script_profile_def ex_account_def
      ex_profile_def Let_def)
  then obtain final this1 plans this2 where
    r: "Script_setupAsync ex_externals ex_script_profile ''csvfile'' ''csvfile'' [] [] = Inr final"
    and o: "setupOrgs ex_externals (assignOrgs (removeExcluded ex_externals
           (initScript ex_script_profile ''csvfile'' ''csvfile'' [] [])) ''csvfile'' ''csvfile'')
           ''csvfile'' ''csvfile'' = Inr this1"
    and l: "setupObjects ex_externals this1 (objects (removeExcluded ex_externals
           (initScript ex_script_profile ''csvfile'' ''csvfile'' [] []))) = Inr (plans, this2)"
    and p: "plans ! 1 \<in> set plans" and n: "name (plans ! 1) = ''Profile''"
    and d: "name (plans ! 1) \<in> set (NOT_SUPPORTED_OBJECTS ex_externals)"
    and f: "filter hasRecordTypeIdField
          (filter (\<lambda>x. name x \<notin> set (NOT_SUPPORTED_OBJECTS ex_externals)) plans) = []"
    by (elim exE conjE)
  note t = setupAsync_unsupported_in_map [OF r o l p d]
  from t have m: "objectsMap final ''Profile'' \<noteq> None"
    unfolding n by (rule conjunct1)
  from t f have a: "''Profile'' \<notin> name ` set (objects final)"
    unfolding n by (elim conjE impE)
  show ?thesis
    by (rule exI [of _ final], rule exI [of _ this1], rule exI [of _ plans], rule exI [of _ this2])
      (intro conjI r o l p n d f m a)
qed

subsection \<open>C8: the fields to update\<close>

lemma fieldsToUpdate_list:
  "[n. Some n \<leftarrow>
       map (\<lambda>x. let name = field x;
                    describe = (case mapGet T name of None \<Rightarrow> None | Some _ \<Rightarrow> mapGet S name)
                in case describe of
                     None \<Rightarrow> None
                   | Some d \<Rightarrow> if isReadonly d then None else field x) xs,
     n \<noteq> []]
   = [n. Some n \<leftarrow> map field xs, n \<noteq> [], map_of T n \<noteq> None,
        (case map_of S n of None \<Rightarrow> False | Some d \<Rightarrow> \<not> isReadonly d)]"
  by (induction xs) (auto simp: mapGet_def Let_def split: option.splits)

lemma fieldsToUpdate_no_target:
  "[n. Some n \<leftarrow> map field xs, n \<noteq> [], map_of ([] :: (string \<times> SFieldDescribe) list) n \<noteq> None,
        (case map_of S n of None \<Rightarrow> False | Some d \<Rightarrow> \<not> isReadonly d)] = []"
  by (induction xs) (auto split: option.splits)

text \<open>
  C8 as stated fails: a queried field whose descriptor is writable on the source and
  read-only on the target is among the fields to update, since \<open>fieldsToUpdate\<close> asks
  the target map only whether it has the field and reads the descriptor of the source.
\<close>

theorem fieldsToUpdate_counterexample:
  "fieldsToUpdate ex_externals ex_described = [''Name''] \<and> fieldsToUpdate_spec ex_described = []"
  by (simp add: fieldsToUpdate_def fieldsToUpdate_spec_def ex_described_def ex_describe_def
      new_ScriptObject_def ex_query_def getComposedField_def mapGet_def isReadonly_def
      isFormula_def Let_def)

text \<open>
  C8, amended. The fields to update are exactly the queried fields with a non-empty
  name that the target describe map has and whose descriptor in the source describe
  map is not read-only, where read-only means not creatable, or formula, or
  auto-numbered. There are none when the plan has no parsed query, when the operation
  is Readonly and when the describe map of either endpoint is empty.
\<close>

theorem fieldsToUpdate_source_writable:
  "fieldsToUpdate X this =
     (case parsedQuery this of
        None \<Rightarrow> []
      | Some q \<Rightarrow>
          if looseEq X (operation this) Readonly \<or> sourceFieldsMap this = []
             \<or> targetFieldsMap this = [] then []
          else [n. Some n \<leftarrow> map field (qfields q), n \<noteq> [],
                map_of (targetFieldsMap this) n \<noteq> None,
                (case map_of (sourceFieldsMap this) n of None \<Rightarrow> False | Some d \<Rightarrow> \<not> isReadonly d)])
   \<and> (isReadonly d \<longleftrightarrow> \<not> creatable d \<or> isFormula d \<or> autoNumber d)"
proof
  show "isReadonly d \<longleftrightarrow> \<not> creatable d \<or> isFormula d \<or> autoNumber d"
    by (auto simp: isReadonly_def)
  show "fieldsToUpdate X this =
     (case parsedQuery this of
        None \<Rightarrow> []
      | Some q \<Rightarrow>
          if looseEq X (operation this) Readonly \<or> sourceFieldsMap this = []
             \<or> targetFieldsMap this = [] then []
          else [n. Some n \<leftarrow> map field (qfields q), n \<noteq> [],
                map_of (targetFieldsMap this) n \<noteq> None,
                (case map_of (sourceFieldsMap this) n of None \<Rightarrow> False | Some d \<Rightarrow> \<not> isReadonly d)])"
  proof (cases "parsedQuery this")
    case None
    then show ?thesis by (simp add: fieldsToUpdate_def)
  next
    case (Some q)
    have f: "fieldsToUpdate X this =
       (if sourceFieldsMap this = [] \<or> looseEq X (operation this) Readonly then []
        else [n. Some n \<leftarrow> map field (qfields q), n \<noteq> [],
                map_of (targetFieldsMap this) n \<noteq> None,
                (case map_of (sourceFieldsMap this) n of None \<Rightarrow> False | Some d \<Rightarrow> \<not> isReadonly d)])"
      unfolding fieldsToUpdate_def Some option.case fieldsToUpdate_list by (rule refl)
    show ?thesis
    proof (cases "targetFieldsMap this = []")
      case True
      have "[n. Some n \<leftarrow> map field (qfields q), n \<noteq> [],
                map_of (targetFieldsMap this) n \<noteq> None,
                (case map_of (sourceFieldsMap this) n of None \<Rightarrow> False | Some d \<Rightarrow> \<not> isReadonly d)]
            = []"
        unfolding True by (rule fieldsToUpdate_no_target)
      then have "fieldsToUpdate X this = []" unfolding f by simp
      then show ?thesis by (simp add: Some True)
    next
      case False
      show ?thesis unfolding f Some option.case using False by auto
    qed
  qed
qed

theorem fieldsToUpdate_source_writable_witness:
  "fieldsToUpdate ex_externals ex_described = [''Name'']
   \<and> map_of (targetFieldsMap ex_described) ''Name'' = Some (ex_describe ''Name'' False)
   \<and> isReadonly (ex_describe ''Name'' False) \<and> creatable (ex_describe ''Name'' False) = False
   \<and> fieldsToUpdate ex_externals (ex_described\<lparr>operation := OpEnum Readonly\<rparr>) = []
   \<and> fieldsToUpdate ex_externals (ex_described\<lparr>targetFieldsMap := []\<rparr>) = []
   \<and> fieldsToUpdate ex_externals (ex_described\<lparr>sourceFieldsMap := []\<rparr>) = []"
proof -
  note t = fieldsToUpdate_source_writable [where d = "ex_describe ''Name'' False"
      and X = ex_externals]
  have c: "creatable (ex_describe ''Name'' False) = False" by (simp add: ex_describe_def)
  have "isReadonly (ex_describe ''Name'' False)"
    using t [where this = ex_described, THEN conjunct2] c by simp
  moreover have "fieldsToUpdate ex_externals ex_described = [''Name'']"
    using t [where this = ex_described, THEN conjunct1]
    by (simp add: ex_described_def ex_describe_def
        new_ScriptObject_def ex_query_def getComposedField_def isReadonly_def isFormula_def)
  moreover have "fieldsToUpdate ex_externals (ex_described\<lparr>operation := OpEnum Readonly\<rparr>) = []"
    using t [where this = "ex_described\<lparr>operation := OpEnum Readonly\<rparr>", THEN conjunct1]
    by (simp add: ex_described_def new_ScriptObject_def)
  moreover have "fieldsToUpdate ex_externals (ex_described\<lparr>targetFieldsMap := []\<rparr>) = []"
    using t [where this = "ex_described\<lparr>targetFieldsMap := []\<rparr>", THEN conjunct1]
    by (simp add: ex_described_def new_ScriptObject_def)
  moreover have "fieldsToUpdate ex_externals (ex_described\<lparr>sourceFieldsMap := []\<rparr>) = []"
    using t [where this = "ex_described\<lparr>sourceFieldsMap := []\<rparr>", THEN conjunct1]
    by (simp add: ex_described_def new_ScriptObject_def)
  moreover have "map_of (targetFieldsMap ex_described) ''Name'' = Some (ex_describe ''Name'' False)"
    by (simp add: ex_described_def)
  ultimately show ?thesis using c by simp
qed

subsection \<open>C4: excluded objects\<close>

text \<open>
  The filter keeps an entry exactly when it is not excluded or its operation is
  \<open>==\<close> to the member Readonly of the enum, and a script without an entry left fails
  with the error of no objects, whatever the collaborators answer: no org is set up
  before.
\<close>

lemma removeExcluded_keeps:
  "object \<in> set (objects (removeExcluded X this)) \<longleftrightarrow>
     object \<in> set (objects this)
     \<and> (\<not> excluded object \<or> looseEq X (operation object) Readonly)"
  by (auto simp: removeExcluded_def)

lemma setupAsync_no_objects:
  "objects (removeExcluded X (initScript this su tu bp av)) = [] \<Longrightarrow>
   Script_setupAsync X this su tu bp av =
     Inl (CommandInitializationError noObjectsDefinedInPackageFile [])"
  by (simp add: Script_setupAsync_def Let_def)

text \<open>
  With the numbers of the examples, an excluded entry whose operation is the text \<open>3\<close>
  is kept, since that text converts to the number of Readonly, and \<open>setup\<close> turns the
  text \<open>0\<close> into the text \<open>Insert\<close>, which is no member: the external id stays.
\<close>

lemma numeral_text_examples:
  "objects (removeExcluded ex_externals
      (ex_script\<lparr>objects := [ex_readonly_text\<lparr>operation := OpText ''3''\<rparr>]\<rparr>))
     = [ex_readonly_text\<lparr>operation := OpText ''3''\<rparr>]"
  "fixOperation ex_externals (OpText ''0'') = OpText ''Insert''"
  "fixOperation ex_externals (OpText ''insert'') = OpUndefined"
  "externalId (setup_init ex_externals (ex_account\<lparr>operation := OpText ''0''\<rparr>)) = ''Name''"
  by (simp_all add: removeExcluded_def ex_script_def ex_readonly_text_def ex_account_def
      new_ScriptObject_def setup_init_def fixOperation_def OPERATION_of_name_def
      OPERATION_members_def OPERATION_name_def looseEq_def ex_externals_def ex_toNumber_def
      ex_OPERATION_number_def Let_def)

text \<open>
  C4 fails on an entry that gives its operation by name. The filter runs before
  \<open>ScriptObject.setup\<close> maps the text to the enum, and the text \<open>Readonly\<close> converts
  to no number, so an excluded entry with the operation \<open>Readonly\<close> as text is dropped,
  and a script with this one entry fails with the error of no objects; the same entry
  with the member Readonly is kept.
\<close>

theorem removeExcluded_drops_Readonly_text:
  "fixOperation ex_externals (operation ex_readonly_text) = OpEnum Readonly
   \<and> excluded ex_readonly_text
   \<and> objects (removeExcluded ex_externals (initScript ex_script_excluded ''prod'' ''csvfile'' [] [])) = []
   \<and> Script_setupAsync ex_externals ex_script_excluded ''prod'' ''csvfile'' [] [] =
        Inl (CommandInitializationError noObjectsDefinedInPackageFile [])
   \<and> objects (removeExcluded ex_externals (initScript
         (ex_script\<lparr>objects := [ex_readonly_text\<lparr>operation := OpEnum Readonly\<rparr>]\<rparr>)
         ''prod'' ''csvfile'' [] [])) = [ex_readonly_text\<lparr>operation := OpEnum Readonly\<rparr>]"
  by (simp add: Script_setupAsync_def removeExcluded_def initScript_def ex_script_excluded_def
      ex_script_def ex_readonly_text_def new_ScriptObject_def fixOperation_def
      OPERATION_of_name_def looseEq_def ex_externals_def ex_toNumber_def Let_def)

theorem removeExcluded_drops_Readonly_text_witness:
  "excluded ex_readonly_text
   \<and> fixOperation ex_externals (operation ex_readonly_text) = OpEnum Readonly
   \<and> ex_readonly_text \<notin>
        set (objects (removeExcluded ex_externals (initScript ex_script_excluded ''prod'' ''csvfile'' [] [])))"
proof -
  note t = removeExcluded_drops_Readonly_text
  have "ex_readonly_text \<notin>
        set (objects (removeExcluded ex_externals (initScript ex_script_excluded ''prod'' ''csvfile'' [] [])))"
    unfolding t [THEN conjunct2, THEN conjunct2, THEN conjunct1] by simp
  with t [THEN conjunct1] t [THEN conjunct2, THEN conjunct1] show ?thesis
    by (intro conjI)
qed

subsection \<open>C7: the setup of an org\<close>

text \<open>
  The setup of an org does nothing to a file; on a live org the first query decides
  between the error of the expired access and success, and the second query only sets
  \<open>isPersonAccountEnabled\<close>; an org info that is not connected is the error of the
  failed connection.
\<close>

lemma setupAsync_file_media:
  "isFileMedia this \<Longrightarrow> ScriptOrg_setupAsync X this = Inr this"
  by (simp add: ScriptOrg_setupAsync_def setupConnection_def)

lemma validateAccessTokenAsync_live:
  "\<not> isFileMedia this \<Longrightarrow>
   validateAccessTokenAsync X this =
     (if queryAsync X this ''SELECT Id FROM Account LIMIT 1''
      then Inr (this\<lparr>isPersonAccountEnabled :=
                  queryAsync X this ''SELECT IsPersonAccount FROM Account LIMIT 1''\<rparr>)
      else Inl (CommandInitializationError accessToOrgExpired [org_name this]))"
  by (simp add: validateAccessTokenAsync_def)

lemma setupAsync_not_connected:
  "\<not> isFileMedia this \<Longrightarrow> \<not> isConnected this \<Longrightarrow>
   parseForceOrgDisplayResult (execSfdx X ''force:org:display'' (org_name this)) = Some info \<Longrightarrow>
   \<not> OrgInfo_isConnected info \<Longrightarrow>
   ScriptOrg_setupAsync X this =
     Inl (CommandInitializationError tryingToConnectCLIFailed [org_name this])"
  by (simp add: ScriptOrg_setupAsync_def setupConnection_def)

text \<open>
  C7 fails when the CLI prints nothing: \<open>_parseForceOrgDisplayResult\<close> returns null for
  the empty result and \<open>_setupConnection\<close> reads \<open>isConnected\<close> of it, so the setup of
  a live org without token ends in a TypeError and not in the initialization error,
  which an output without a connected status does give.
\<close>

theorem setupAsync_empty_output_TypeError:
  "\<not> isFileMedia ex_org_offline \<and> \<not> isConnected ex_org_offline
   \<and> execSfdx ex_externals ''force:org:display'' (org_name ex_org_offline) = []
   \<and> ScriptOrg_setupAsync ex_externals ex_org_offline = Inl TypeError
   \<and> execSfdx ex_externals ''force:org:display'' (org_name ex_org_stale) = ''Username stale''
   \<and> ScriptOrg_setupAsync ex_externals ex_org_stale =
        Inl (CommandInitializationError tryingToConnectCLIFailed [''stale''])"
  by (simp add: ScriptOrg_setupAsync_def setupConnection_def parseForceOrgDisplayResult_def
      parseLine_def startsWith_def OrgInfo_isConnected_def new_OrgInfo_def isConnected_def
      isFileMedia_def ex_org_offline_def ex_org_stale_def new_ScriptOrg_def ex_externals_def
      Let_def)

end
